theory Spec2Isabelle
  imports Main
begin

section \<open>JavaScript strings\<close>

text \<open>
  A JavaScript string is a sequence of UTF-16 code units. The model uses \<^typ>\<open>string\<close>,
  one \<^typ>\<open>char\<close> per code unit, which covers the code units below 256. Every pattern
  of the modelled functions lies in that range, and every literal but one: the bullet
  prefix of \<open>parseListToText\<close> has the code unit U+20AC (see \<open>bulletPrefix\<close>). Indices and
  lengths count code units, as \<open>match.index\<close> and \<open>String.length\<close> do.
\<close>

abbreviation bsl :: char where
  "bsl \<equiv> CHR 0x5C"

abbreviation dq :: char where
  "dq \<equiv> CHR 0x22"


abbreviation nl :: char where
  "nl \<equiv> CHR 0x0A"

text \<open>The white space of \<open>String.prototype.trim\<close> and of \<open>\s\<close>, below code unit 256:
  tab, line feed, vertical tab, form feed, carriage return, space, no-break space.\<close>

definition ws :: "char list" where
  "ws = [CHR 0x09, CHR 0x0A, CHR 0x0B, CHR 0x0C, CHR 0x0D, CHR 0x20, CHR 0xA0]"

definition isSpace :: "char \<Rightarrow> bool" where
  "isSpace c = (c \<in> set ws)"

definition trim :: "string \<Rightarrow> string" where
  "trim s = rev (dropWhile isSpace (rev (dropWhile isSpace s)))"


definition startsWith :: "string \<Rightarrow> string \<Rightarrow> bool" where
  "startsWith s w = (take (length w) s = w)"

fun includesStr :: "string \<Rightarrow> string \<Rightarrow> bool" where
  "includesStr [] w = (w = [])"
| "includesStr (x # xs) w = (startsWith (x # xs) w \<or> includesStr xs w)"

definition digits :: "char list" where
  "digits = ''0123456789''"

definition letters :: "char list" where
  "letters = ''abcdefghijklmnopqrstuvwxyzABCDEFGHIJKLMNOPQRSTUVWXYZ''"

fun natToString_aux :: "nat \<Rightarrow> nat \<Rightarrow> string \<Rightarrow> string" where
  "natToString_aux 0 n acc = acc"
| "natToString_aux (Suc fuel) n acc =
     (if n < 10 then (digits ! n) # acc
      else natToString_aux fuel (n div 10) ((digits ! (n mod 10)) # acc))"

text \<open>Decimal rendering of a non-negative integer, as a template literal prints it.\<close>

definition natToString :: "nat \<Rightarrow> string" where
  "natToString n = natToString_aux (Suc n) n []"


section \<open>Regular expressions\<close>

text \<open>
  The fragment of JavaScript regular expressions that the modelled functions use, with
  the backtracking semantics of \<open>RegExp.prototype.exec\<close>: \<open>matchAt\<close> lists every way a
  pattern can match at the current position, in the order in which the backtracking
  matcher tries them, so the head of the list is the match that JavaScript reports.
  Capturing groups are recorded in the order in which they close; in every pattern below
  the groups are neither nested nor optional, so this is their number.
\<close>

datatype rx =
    Lit string
  | OneOf "char list"
  | NoneOf "char list"
  | Seq rx rx
  | Alt rx rx
  | Star rx
  | Plus rx
  | Grp rx
  | Eos
  | NotAhead rx
  | NotBehind "char list"

text \<open>A matcher state: the text before the position (reversed), the text from the
  position on, and the captures so far.\<close>

type_synonym mstate = "string \<times> string \<times> string list"

definition rest :: "mstate \<Rightarrow> string" where
  "rest st = fst (snd st)"

text \<open>Greedy iteration. An iteration that consumes nothing is rejected, as in
  JavaScript, so the number of iterations is bounded by the length of the text.\<close>

primrec star :: "(mstate \<Rightarrow> mstate list) \<Rightarrow> nat \<Rightarrow> mstate \<Rightarrow> mstate list" where
  "star f 0 st = [st]"
| "star f (Suc n) st =
     concat (map (star f n) (filter (\<lambda>t. length (rest t) < length (rest st)) (f st))) @ [st]"

primrec matchAt :: "rx \<Rightarrow> mstate \<Rightarrow> mstate list" where
  "matchAt (Lit w) = (\<lambda>(p, s, c).
     if take (length w) s = w then [(rev w @ p, drop (length w) s, c)] else [])"
| "matchAt (OneOf cs) = (\<lambda>(p, s, c).
     case s of [] \<Rightarrow> [] | x # xs \<Rightarrow> if x \<in> set cs then [(x # p, xs, c)] else [])"
| "matchAt (NoneOf cs) = (\<lambda>(p, s, c).
     case s of [] \<Rightarrow> [] | x # xs \<Rightarrow> if x \<in> set cs then [] else [(x # p, xs, c)])"
| "matchAt (Seq a b) = (\<lambda>st. concat (map (matchAt b) (matchAt a st)))"
| "matchAt (Alt a b) = (\<lambda>st. matchAt a st @ matchAt b st)"
| "matchAt (Star a) = (\<lambda>st. star (matchAt a) (length (rest st)) st)"
| "matchAt (Plus a) = (\<lambda>st.
     concat (map (\<lambda>t. star (matchAt a) (length (rest t)) t) (matchAt a st)))"
| "matchAt (Grp a) = (\<lambda>(p, s, c).
     map (\<lambda>(p', s', c'). (p', s', c' @ [take (length s - length s') s])) (matchAt a (p, s, c)))"
| "matchAt Eos = (\<lambda>(p, s, c). if s = [] then [(p, s, c)] else [])"
| "matchAt (NotAhead a) = (\<lambda>st. if matchAt a st = [] then [st] else [])"
| "matchAt (NotBehind cs) = (\<lambda>(p, s, c).
     case p of [] \<Rightarrow> [(p, s, c)] | x # xs \<Rightarrow> if x \<in> set cs then [] else [(p, s, c)])"

text \<open>The match that starts exactly at the current position, if there is one: its
  length and its captures.\<close>

definition firstMatch :: "rx \<Rightarrow> string \<Rightarrow> string \<Rightarrow> (nat \<times> string list) option" where
  "firstMatch r p s =
     (case matchAt r (p, s, []) of
        [] \<Rightarrow> None
      | st # _ \<Rightarrow> Some (length s - length (rest st), snd (snd st)))"

text \<open>Replacement templates: literal text and \<open>$n\<close> references.\<close>

datatype titem = TLit string | TGrp nat

fun substItem :: "string list \<Rightarrow> titem \<Rightarrow> string" where
  "substItem caps (TLit w) = w"
| "substItem caps (TGrp i) =
     (if 0 < i \<and> i \<le> length caps then caps ! (i - 1) else CHR ''$'' # natToString i)"

definition subst :: "titem list \<Rightarrow> string list \<Rightarrow> string" where
  "subst t caps = concat (map (substItem caps) t)"

text \<open>
  \<open>String.prototype.replace\<close> with a global pattern. The text is scanned from the left;
  \<open>k\<close> counts the characters of the last match that are still to be skipped. After an
  empty match the scan copies one character and moves on.
\<close>

fun replaceAll :: "rx \<Rightarrow> titem list \<Rightarrow> nat \<Rightarrow> string \<Rightarrow> string \<Rightarrow> string" where
  "replaceAll r t k p [] =
     (if k = 0 then (case firstMatch r p [] of None \<Rightarrow> [] | Some (n, caps) \<Rightarrow> subst t caps)
      else [])"
| "replaceAll r t (Suc k) p (x # xs) = replaceAll r t k (x # p) xs"
| "replaceAll r t 0 p (x # xs) =
     (case firstMatch r p (x # xs) of
        None \<Rightarrow> x # replaceAll r t 0 (x # p) xs
      | Some (n, caps) \<Rightarrow>
          subst t caps @
          (case n of
             0 \<Rightarrow> x # replaceAll r t 0 (x # p) xs
           | Suc j \<Rightarrow> replaceAll r t j (x # p) xs))"

definition replaceG :: "rx \<Rightarrow> titem list \<Rightarrow> string \<Rightarrow> string" where
  "replaceG r t s = replaceAll r t 0 [] s"

text \<open>\<open>String.prototype.replace\<close> with a pattern that is not global: only the leftmost
  match is replaced.\<close>

fun replaceOnce :: "rx \<Rightarrow> titem list \<Rightarrow> string \<Rightarrow> string \<Rightarrow> string" where
  "replaceOnce r t p [] =
     (case firstMatch r p [] of None \<Rightarrow> [] | Some (n, caps) \<Rightarrow> subst t caps)"
| "replaceOnce r t p (x # xs) =
     (case firstMatch r p (x # xs) of
        None \<Rightarrow> x # replaceOnce r t (x # p) xs
      | Some (n, caps) \<Rightarrow> subst t caps @ drop n (x # xs))"

definition replace1 :: "rx \<Rightarrow> titem list \<Rightarrow> string \<Rightarrow> string" where
  "replace1 r t s = replaceOnce r t [] s"

text \<open>
  The loop \<open>while ((match = regex.exec(text)) !== null)\<close> over a global pattern: the
  matches in order, each with its index, its captures and its length. A global pattern
  that matches the empty string leaves \<open>lastIndex\<close> where it is, and the loop then never
  ends: that is the result \<open>None\<close>.
\<close>

fun execLoop ::
  "rx \<Rightarrow> nat \<Rightarrow> nat \<Rightarrow> string \<Rightarrow> string \<Rightarrow> (nat \<times> string list \<times> nat) list option" where
  "execLoop r i k p [] =
     (if k = 0 then (case firstMatch r p [] of None \<Rightarrow> Some [] | Some m \<Rightarrow> None)
      else Some [])"
| "execLoop r i (Suc k) p (x # xs) = execLoop r (Suc i) k (x # p) xs"
| "execLoop r i 0 p (x # xs) =
     (case firstMatch r p (x # xs) of
        None \<Rightarrow> execLoop r (Suc i) 0 (x # p) xs
      | Some (n, caps) \<Rightarrow>
          (case n of
             0 \<Rightarrow> None
           | Suc j \<Rightarrow> map_option ((#) (i, caps, n)) (execLoop r (Suc i) j (x # p) xs)))"

definition execAll :: "rx \<Rightarrow> string \<Rightarrow> (nat \<times> string list \<times> nat) list option" where
  "execAll r s = execLoop r 0 0 [] s"

text \<open>Sequences and alternatives of several patterns.\<close>

fun seqs :: "rx list \<Rightarrow> rx" where
  "seqs [] = Lit []"
| "seqs [r] = r"
| "seqs (r # rs) = Seq r (seqs rs)"

fun alts :: "string list \<Rightarrow> rx" where
  "alts [] = NoneOf []"
| "alts [w] = Lit w"
| "alts (w # wss) = Alt (Lit w) (alts wss)"

abbreviation spaces :: rx where
  "spaces \<equiv> Star (OneOf ws)"

abbreviation spaces1 :: rx where
  "spaces1 \<equiv> Plus (OneOf ws)"

text \<open>A backslash command such as \<open>\frac\<close>.\<close>

abbreviation cmd :: "string \<Rightarrow> string" where
  "cmd w \<equiv> bsl # w"

text \<open>A pass of the repair engine is a sequence of \<open>replace\<close> statements, each applied
  to the result of the one before.\<close>

datatype rule = RuleG rx "titem list" | Rule1 rx "titem list"

fun applyRule :: "string \<Rightarrow> rule \<Rightarrow> string" where
  "applyRule s (RuleG r t) = replaceG r t s"
| "applyRule s (Rule1 r t) = replace1 r t s"

definition applyRules :: "rule list \<Rightarrow> string \<Rightarrow> string" where
  "applyRules rs s = foldl applyRule s rs"


section \<open>LaTeX utilities (shared/messages.ts)\<close>

subsection \<open>escapeHtml\<close>


subsection \<open>renderLatex\<close>

text \<open>
  \<open>katex.renderToString\<close> belongs to the KaTeX library, not to this repository: it is a
  parameter of the model, a function from the formula and the options to either the
  value it throws or the markup it returns. A thrown value is an \<open>Error\<close> object with a
  name and a message, or anything else.
\<close>

datatype thrown = ErrorObject string string | OtherValue






definition orDefault :: "'a option \<Rightarrow> 'a \<Rightarrow> 'a" where
  "orDefault v d = (case v of None \<Rightarrow> d | Some x \<Rightarrow> x)"






subsection \<open>The substitution rules\<close>

text \<open>
  Each rule is one \<open>replace\<close> statement of the source: the pattern and the replacement.
  Rules that occur in several of the repair functions are named once.
\<close>

definition operatorNames :: "string list" where
  "operatorNames = [''frac'', ''sin'', ''cos'', ''tan'', ''log'', ''ln'', ''exp'', ''sqrt'']"

definition barCommands :: "string list" where
  "barCommands = [''frac'', ''left'', ''right'', ''sqrt'', ''sin'', ''cos'', ''tan'', ''text'',
     ''Rightarrow'', ''neq'', ''leq'', ''geq'', ''pi'']"


definition fracTemplate :: "titem list" where
  "fracTemplate = [TLit (cmd ''frac{''), TGrp 1, TLit ''}{'', TGrp 2, TLit ''}'']"



text \<open>\<open>/\|(frac|left|right|sqrt|sin|cos|tan|text|Rightarrow|neq|leq|geq|pi)/g\<close> to \<open>\$1\<close>\<close>

definition ruleBar :: rule where
  "ruleBar = RuleG (Seq (Lit ''|'') (Grp (alts barCommands))) [TLit [bsl], TGrp 1]"

text \<open>\<open>/\\langle\s*/g\<close> to \<open>{\<close> and \<open>/\s*\\rangle/g\<close> to \<open>}\<close>\<close>

definition ruleLangle :: rule where
  "ruleLangle = RuleG (Seq (Lit (cmd ''langle'')) spaces) [TLit ''{'']"

definition ruleRangle :: rule where
  "ruleRangle = RuleG (Seq spaces (Lit (cmd ''rangle''))) [TLit ''}'']"


text \<open>\<open>/\\backslash\s*/g\<close> to a backslash\<close>

definition ruleBackslash :: rule where
  "ruleBackslash = RuleG (Seq (Lit (cmd ''backslash'')) spaces) [TLit [bsl]]"

text \<open>\<open>/\\f\s*r\s*a\s*c/g\<close>, \<open>/\\s\s*q\s*r\s*t/g\<close>, \<open>/\\t\s*e\s*x\s*t/g\<close>\<close>

definition ruleSpacedFrac :: rule where
  "ruleSpacedFrac =
     RuleG (seqs [Lit (cmd ''f''), spaces, Lit ''r'', spaces, Lit ''a'', spaces, Lit ''c''])
       [TLit (cmd ''frac'')]"

definition ruleSpacedSqrt :: rule where
  "ruleSpacedSqrt =
     RuleG (seqs [Lit (cmd ''s''), spaces, Lit ''q'', spaces, Lit ''r'', spaces, Lit ''t''])
       [TLit (cmd ''sqrt'')]"

definition ruleSpacedText :: rule where
  "ruleSpacedText =
     RuleG (seqs [Lit (cmd ''t''), spaces, Lit ''e'', spaces, Lit ''x'', spaces, Lit ''t''])
       [TLit (cmd ''text'')]"

text \<open>\<open>/\\f\s+r\s+a\s+c/g\<close> and \<open>/\\s\s+q\s+r\s+t/g\<close>\<close>

definition ruleSpacedFrac1 :: rule where
  "ruleSpacedFrac1 =
     RuleG (seqs [Lit (cmd ''f''), spaces1, Lit ''r'', spaces1, Lit ''a'', spaces1, Lit ''c''])
       [TLit (cmd ''frac'')]"

definition ruleSpacedSqrt1 :: rule where
  "ruleSpacedSqrt1 =
     RuleG (seqs [Lit (cmd ''s''), spaces1, Lit ''q'', spaces1, Lit ''r'', spaces1, Lit ''t''])
       [TLit (cmd ''sqrt'')]"

text \<open>\<open>/\\\{operatorname\{(frac|sin|cos|tan|log|ln|exp|sqrt)\}\}/g\<close> to \<open>\$1\<close>,
  \<open>/\{\\operatorname\{(...)\}/g\<close> to \<open>\$1{\<close>, \<open>/\\operatorname\{(...)\}/g\<close> to \<open>\$1\<close>\<close>

definition ruleOperatorname1 :: rule where
  "ruleOperatorname1 =
     RuleG (seqs [Lit (cmd ''{operatorname{''), Grp (alts operatorNames), Lit ''}}''])
       [TLit [bsl], TGrp 1]"

definition ruleOperatorname2 :: rule where
  "ruleOperatorname2 =
     RuleG (seqs [Lit (''{'' @ cmd ''operatorname{''), Grp (alts operatorNames), Lit ''}''])
       [TLit [bsl], TGrp 1, TLit ''{'']"

definition ruleOperatorname3 :: rule where
  "ruleOperatorname3 =
     RuleG (seqs [Lit (cmd ''operatorname{''), Grp (alts operatorNames), Lit ''}''])
       [TLit [bsl], TGrp 1]"

text \<open>\<open>/\\left\\\{frac/g\<close>, \<open>/\\left\{frac/g\<close> to \<open>\left(\frac\<close>;
  \<open>/\\left\{f\(/g\<close> to \<open>\left(\frac{\<close>\<close>

definition ruleLeft1 :: rule where
  "ruleLeft1 = RuleG (Lit (cmd ''left'' @ cmd ''{frac'')) [TLit (cmd ''left('' @ cmd ''frac'')]"

definition ruleLeft2 :: rule where
  "ruleLeft2 = RuleG (Lit (cmd ''left{frac'')) [TLit (cmd ''left('' @ cmd ''frac'')]"

definition ruleLeft3 :: rule where
  "ruleLeft3 = RuleG (Lit (cmd ''left{f('')) [TLit (cmd ''left('' @ cmd ''frac{'')]"

text \<open>\<open>/\\right\}/g\<close>, \<open>/\}right\)/g\<close>, \<open>/\(right\)/g\<close> to \<open>\right)\<close>;
  \<open>/right\\\^(\d)/g\<close>, \<open>/\}right\^(\d)/g\<close> to \<open>\right)^$1\<close>\<close>

definition ruleRight1 :: rule where
  "ruleRight1 = RuleG (Lit (cmd ''right}'')) [TLit (cmd ''right)'')]"

definition ruleRight2 :: rule where
  "ruleRight2 = RuleG (Lit ''}right)'') [TLit (cmd ''right)'')]"

definition ruleRight3 :: rule where
  "ruleRight3 = RuleG (Seq (Lit (''right'' @ cmd ''^'')) (Grp (OneOf digits)))
                  [TLit (cmd ''right)^''), TGrp 1]"

definition ruleRight4 :: rule where
  "ruleRight4 = RuleG (Seq (Lit ''}right^'') (Grp (OneOf digits)))
                  [TLit (cmd ''right)^''), TGrp 1]"

definition ruleRight5 :: rule where
  "ruleRight5 = RuleG (Lit ''(right)'') [TLit (cmd ''right)'')]"

text \<open>\<open>/\\frac\(([^)]+)\)\(([^)]+)\)/g\<close>, \<open>/\\\{frac\{([^}]+)\}\{([^}]+)\}\}/g\<close>,
  \<open>/\{frac\{([^}]+)\}\{([^}]+)\}/g\<close> to \<open>\frac{$1}{$2}\<close>\<close>

definition ruleFracParens :: rule where
  "ruleFracParens =
     RuleG (seqs [Lit (cmd ''frac(''), Grp (Plus (NoneOf '')'')), Lit '')('',
                  Grp (Plus (NoneOf '')'')), Lit '')''])
       fracTemplate"

definition ruleFracBraces1 :: rule where
  "ruleFracBraces1 =
     RuleG (seqs [Lit (cmd ''{frac{''), Grp (Plus (NoneOf ''}'')), Lit ''}{'',
                  Grp (Plus (NoneOf ''}'')), Lit ''}}''])
       fracTemplate"

definition ruleFracBraces2 :: rule where
  "ruleFracBraces2 =
     RuleG (seqs [Lit ''{frac{'', Grp (Plus (NoneOf ''}'')), Lit ''}{'',
                  Grp (Plus (NoneOf ''}'')), Lit ''}''])
       fracTemplate"

text \<open>\<open>/\\wedge/g\<close>, \<open>/\\\^/g\<close> to \<open>^\<close>; \<open>/\{\^(\d+)\}/g\<close> to \<open>^{$1}\<close>\<close>

definition ruleWedge :: rule where
  "ruleWedge = RuleG (Lit (cmd ''wedge'')) [TLit ''^'']"

definition ruleCaret :: rule where
  "ruleCaret = RuleG (Lit (cmd ''^'')) [TLit ''^'']"

definition ruleBracedCaret :: rule where
  "ruleBracedCaret = RuleG (seqs [Lit ''{^'', Grp (Plus (OneOf digits)), Lit ''}''])
                       [TLit ''^{'', TGrp 1, TLit ''}'']"

text \<open>\<open>/\\mathrm\{([a-zA-Z])\}/g\<close>, \<open>/\\underline\{([^}]+)\}/g\<close>,
  \<open>/\\boldsymbol\{([^}]+)\}/g\<close> to \<open>$1\<close>\<close>

definition ruleMathrm :: rule where
  "ruleMathrm = RuleG (seqs [Lit (cmd ''mathrm{''), Grp (OneOf letters), Lit ''}'']) [TGrp 1]"

definition ruleUnderline :: rule where
  "ruleUnderline =
     RuleG (seqs [Lit (cmd ''underline{''), Grp (Plus (NoneOf ''}'')), Lit ''}'']) [TGrp 1]"

definition ruleBoldsymbol :: rule where
  "ruleBoldsymbol =
     RuleG (seqs [Lit (cmd ''boldsymbol{''), Grp (Plus (NoneOf ''}'')), Lit ''}'']) [TGrp 1]"

text \<open>\<open>/\\quad\s*/g\<close> to one space, \<open>/\\qquad\s*/g\<close> to two\<close>

definition ruleQuad :: rule where
  "ruleQuad = RuleG (Seq (Lit (cmd ''quad'')) spaces) [TLit '' '']"

definition ruleQquad :: rule where
  "ruleQquad = RuleG (Seq (Lit (cmd ''qquad'')) spaces) [TLit ''  '']"

text \<open>\<open>/\\\\/g\<close> and \<open>/\\\\\s*(?![\\[])/g\<close> to one space\<close>

definition ruleDoubleBackslash :: rule where
  "ruleDoubleBackslash = RuleG (Lit [bsl, bsl]) [TLit '' '']"

definition ruleDoubleBackslashGuarded :: rule where
  "ruleDoubleBackslashGuarded =
     RuleG (seqs [Lit [bsl, bsl], spaces, NotAhead (OneOf (bsl # ''[''))]) [TLit '' '']"

text \<open>\<open>/\\text\s*\{/g\<close> to \<open>\text{\<close>, \<open>/\\neq\s+0/g\<close> to \<open>\neq 0\<close>,
  \<open>/\\text\(\s*/g\<close> to \<open>\text{\<close>, \<open>/\s*\)\\text/g\<close> to \<open>}\<close>\<close>

definition ruleTextBrace :: rule where
  "ruleTextBrace = RuleG (seqs [Lit (cmd ''text''), spaces, Lit ''{'']) [TLit (cmd ''text{'')]"

definition ruleNeqZero :: rule where
  "ruleNeqZero = RuleG (seqs [Lit (cmd ''neq''), spaces1, Lit ''0'']) [TLit (cmd ''neq 0'')]"

definition ruleTextParen :: rule where
  "ruleTextParen = RuleG (Seq (Lit (cmd ''text('')) spaces) [TLit (cmd ''text{'')]"

definition ruleParenText :: rule where
  "ruleParenText = RuleG (Seq spaces (Lit ('')'' @ cmd ''text''))) [TLit ''}'']"

text \<open>\<open>/\.\s*$/\<close>, not global, to nothing\<close>

definition ruleTrailingPeriod :: rule where
  "ruleTrailingPeriod = Rule1 (seqs [Lit ''.'', spaces, Eos]) []"

subsection \<open>fixCorruptedLatexPatterns\<close>



subsection \<open>cleanLatexContent\<close>

text \<open>The substitutions of \<open>cleanLatexContent\<close>, in the order of the source, up to the
  brace balancing that ends the function.\<close>

definition cleanLatexContent_rules :: "rule list" where
  "cleanLatexContent_rules =
    [ruleTrailingPeriod, ruleBar, ruleLangle, ruleRangle, ruleBackslash,
     ruleOperatorname1, ruleOperatorname2, ruleOperatorname3,
     ruleLeft1, ruleLeft2, ruleLeft3,
     ruleRight1, ruleRight2, ruleRight3, ruleRight4, ruleRight5,
     ruleFracParens, ruleFracBraces1, ruleFracBraces2,
     ruleWedge, ruleCaret, ruleBracedCaret,
     ruleMathrm, ruleUnderline, ruleBoldsymbol,
     ruleQuad, ruleQquad, ruleDoubleBackslashGuarded,
     ruleTextBrace, ruleSpacedFrac1, ruleSpacedSqrt1,
     ruleNeqZero, ruleTextParen, ruleParenText]"

text \<open>The last step of \<open>cleanLatexContent\<close>: count the braces of the text that the
  substitutions produced and append the missing closing braces.\<close>

definition balanceBraces :: "string \<Rightarrow> string" where
  "balanceBraces cleaned =
     (let openBraces = count_list cleaned CHR ''{'';
          closeBraces = count_list cleaned CHR ''}''
      in if openBraces > closeBraces
         then cleaned @ replicate (openBraces - closeBraces) CHR ''}''
         else cleaned)"

definition cleanLatexContent :: "string \<Rightarrow> string" where
  "cleanLatexContent latex = balanceBraces (applyRules cleanLatexContent_rules latex)"

subsection \<open>extractLatexExpressions\<close>

record foundExpression =
  fRaw :: string
  fIsBlock :: bool
  startIndex :: nat
  endIndex :: nat

text \<open>\<open>/\$\$([^$]+)\$\$/g\<close> and \<open>/(?<!\$)\$(?!\$)([^$]+)\$(?!\$)/g\<close>\<close>

definition blockMathRegex :: rx where
  "blockMathRegex = seqs [Lit ''$$'', Grp (Plus (NoneOf ''$'')), Lit ''$$'']"

definition inlineMathRegex :: rx where
  "inlineMathRegex =
     seqs [NotBehind ''$'', Lit ''$'', NotAhead (Lit ''$''), Grp (Plus (NoneOf ''$'')),
           Lit ''$'', NotAhead (Lit ''$'')]"

definition toFound :: "bool \<Rightarrow> nat \<times> string list \<times> nat \<Rightarrow> foundExpression" where
  "toFound blk m =
     \<lparr>fRaw = (case fst (snd m) of [] \<Rightarrow> [] | c # cs \<Rightarrow> c), fIsBlock = blk,
      startIndex = fst m, endIndex = fst m + snd (snd m)\<rparr>"

text \<open>An inline match is kept unless its index lies inside an expression already
  recorded.\<close>

definition addInline :: "foundExpression list \<Rightarrow> nat \<times> string list \<times> nat \<Rightarrow> foundExpression list" where
  "addInline expressions m =
     (let overlaps = list_ex (\<lambda>exp. fst m \<ge> startIndex exp \<and> fst m < endIndex exp) expressions
      in if \<not> overlaps then expressions @ [toFound False m] else expressions)"

text \<open>The result is \<open>None\<close> when one of the two \<open>exec\<close> loops does not end. The final
  \<open>sort\<close> is stable.\<close>

definition extractLatexExpressions :: "string \<Rightarrow> foundExpression list option" where
  "extractLatexExpressions text' =
     (case execAll blockMathRegex text' of
        None \<Rightarrow> None
      | Some blk \<Rightarrow>
          (case execAll inlineMathRegex text' of
             None \<Rightarrow> None
           | Some inl \<Rightarrow>
               Some (sort_key startIndex (foldl addInline (map (toFound True) blk) inl))))"


section \<open>The DOM\<close>

text \<open>
  A node is a text node or an element. An element has a namespace flag (SVG elements
  differ from the others in their \<open>className\<close>), its tag name in lower case (what
  \<open>tagName.toLowerCase()\<close> returns and what type selectors compare), its attributes and
  its child nodes. An element handle is the path of child indices from the root of its
  tree: two elements with equal content at different places are different elements.
\<close>

datatype node =
    TextNode string
  | Element bool string "(string \<times> string) list" "node list"

type_synonym path = "nat list"

fun isSvg :: "node \<Rightarrow> bool" where
  "isSvg (TextNode t) = False"
| "isSvg (Element sv tg at cs) = sv"

fun tagName :: "node \<Rightarrow> string" where
  "tagName (TextNode t) = []"
| "tagName (Element sv tg at cs) = tg"

fun attributes :: "node \<Rightarrow> (string \<times> string) list" where
  "attributes (TextNode t) = []"
| "attributes (Element sv tg at cs) = at"

fun childNodes :: "node \<Rightarrow> node list" where
  "childNodes (TextNode t) = []"
| "childNodes (Element sv tg at cs) = cs"

fun isElement :: "node \<Rightarrow> bool" where
  "isElement (TextNode t) = False"
| "isElement (Element sv tg at cs) = True"

fun nodeAt :: "node \<Rightarrow> path \<Rightarrow> node option" where
  "nodeAt n [] = Some n"
| "nodeAt (TextNode t) (i # p) = None"
| "nodeAt (Element sv tg at cs) (i # p) = (if i < length cs then nodeAt (cs ! i) p else None)"

text \<open>The element at a path, if the path leads to an element.\<close>

definition elementAt :: "node \<Rightarrow> path \<Rightarrow> node option" where
  "elementAt root p =
     (case nodeAt root p of
        Some (Element sv tg at cs) \<Rightarrow> Some (Element sv tg at cs)
      | _ \<Rightarrow> None)"

definition getAttribute :: "node \<Rightarrow> string \<Rightarrow> string option" where
  "getAttribute el name = map_of (attributes el) name"

fun textContent :: "node \<Rightarrow> string" where
  "textContent (TextNode t) = t"
| "textContent (Element sv tg at cs) = concat (map textContent cs)"

text \<open>\<open>children\<close>: the indices of the child nodes that are elements.\<close>

definition children :: "node \<Rightarrow> nat list" where
  "children el = filter (\<lambda>i. isElement (childNodes el ! i)) [0..<length (childNodes el)]"

text \<open>The paths of the element descendants of a node, in document order, relative to
  the node.\<close>

fun descPaths :: "node \<Rightarrow> path list"
  and descPathsFrom :: "nat \<Rightarrow> node list \<Rightarrow> path list" where
  "descPaths (TextNode t) = []"
| "descPaths (Element sv tg at cs) = descPathsFrom 0 cs"
| "descPathsFrom i [] = []"
| "descPathsFrom i (c # cs) =
     (if isElement c then [i] # map ((#) i) (descPaths c) else []) @ descPathsFrom (Suc i) cs"

subsection \<open>className and classList\<close>

text \<open>HTML's ASCII white space, which separates the tokens of a class attribute.\<close>

definition asciiWs :: "char list" where
  "asciiWs = [CHR 0x09, CHR 0x0A, CHR 0x0C, CHR 0x0D, CHR 0x20]"

fun splitTokens :: "string \<Rightarrow> string \<Rightarrow> string list" where
  "splitTokens cur [] = (if cur = [] then [] else [cur])"
| "splitTokens cur (x # xs) =
     (if x \<in> set asciiWs then (if cur = [] then [] else [cur]) @ splitTokens [] xs
      else splitTokens (cur @ [x]) xs)"

definition classList :: "node \<Rightarrow> string list" where
  "classList el = splitTokens [] (orDefault (getAttribute el ''class'') [])"

text \<open>
  \<open>className\<close> of an element that is not an SVG element: the class attribute, or the
  empty string. Of an SVG element \<open>className\<close> is an \<open>SVGAnimatedString\<close> object, which
  has no string methods and which string concatenation prints as
  \<open>[object SVGAnimatedString]\<close>.
\<close>

definition className :: "node \<Rightarrow> string" where
  "className el = orDefault (getAttribute el ''class'') []"

definition classNameAsString :: "node \<Rightarrow> string" where
  "classNameAsString el = (if isSvg el then ''[object SVGAnimatedString]'' else className el)"

subsection \<open>Selectors\<close>

text \<open>
  The selectors that the code passes to \<open>querySelector\<close>, \<open>querySelectorAll\<close>, \<open>matches\<close>
  and \<open>closest\<close>, as syntax trees: a selector list is a list of complex selectors, a
  complex selector is a chain of compound selectors joined by the descendant or the child
  combinator, and a compound selector is a list of simple selectors.
\<close>

datatype simple =
    Tag string
  | Cls string
  | HasAttr string
  | AttrEq string string
  | AttrPrefix string string
  | AttrSub string string
  | Scope

datatype combinator = Descendant | Child

datatype complex =
    Compound "simple list"
  | Comb complex combinator "simple list"

type_synonym selector = "complex list"

text \<open>The value of the attribute \<open>type\<close> is compared without regard to case on the
  elements of an HTML document; the values of the other attributes used here are compared
  exactly.\<close>

definition toLowerChar :: "char \<Rightarrow> char" where
  "toLowerChar c =
     (if (65 :: nat) \<le> of_char c \<and> of_char c \<le> (90 :: nat)
      then char_of (of_char c + (32 :: nat)) else c)"

definition attrValue :: "node \<Rightarrow> string \<Rightarrow> string option" where
  "attrValue el name =
     (if name = ''type'' then map_option (map toLowerChar) (getAttribute el name)
      else getAttribute el name)"

fun matchesSimple :: "node \<Rightarrow> bool \<Rightarrow> simple \<Rightarrow> bool" where
  "matchesSimple el isScope (Tag t) = (tagName el = t)"
| "matchesSimple el isScope (Cls c) = (c \<in> set (classList el))"
| "matchesSimple el isScope (HasAttr a) = (getAttribute el a \<noteq> None)"
| "matchesSimple el isScope (AttrEq a v) = (attrValue el a = Some v)"
| "matchesSimple el isScope (AttrPrefix a v) =
     (case attrValue el a of None \<Rightarrow> False | Some x \<Rightarrow> v \<noteq> [] \<and> startsWith x v)"
| "matchesSimple el isScope (AttrSub a v) =
     (case attrValue el a of None \<Rightarrow> False | Some x \<Rightarrow> v \<noteq> [] \<and> includesStr x v)"
| "matchesSimple el isScope Scope = isScope"

definition matchesCompound :: "node \<Rightarrow> path \<Rightarrow> path \<Rightarrow> simple list \<Rightarrow> bool" where
  "matchesCompound root scope p ss =
     (case elementAt root p of
        None \<Rightarrow> False
      | Some el \<Rightarrow> list_all (matchesSimple el (p = scope)) ss)"

text \<open>The proper ancestors of a path, nearest first.\<close>

definition ancestors :: "path \<Rightarrow> path list" where
  "ancestors p = map (\<lambda>k. take k p) (rev [0..<length p])"

fun matchesComplex :: "node \<Rightarrow> path \<Rightarrow> path \<Rightarrow> complex \<Rightarrow> bool" where
  "matchesComplex root scope p (Compound ss) = matchesCompound root scope p ss"
| "matchesComplex root scope p (Comb left Child ss) =
     (matchesCompound root scope p ss \<and> p \<noteq> [] \<and> matchesComplex root scope (butlast p) left)"
| "matchesComplex root scope p (Comb left Descendant ss) =
     (matchesCompound root scope p ss \<and>
      list_ex (\<lambda>q. matchesComplex root scope q left) (ancestors p))"

definition matchesSel :: "node \<Rightarrow> path \<Rightarrow> path \<Rightarrow> selector \<Rightarrow> bool" where
  "matchesSel root scope p sel = list_ex (matchesComplex root scope p) sel"

text \<open>\<open>element.matches(sel)\<close>: the element is its own scope.\<close>

definition matches :: "node \<Rightarrow> path \<Rightarrow> selector \<Rightarrow> bool" where
  "matches root p sel = matchesSel root p p sel"

text \<open>\<open>element.querySelectorAll(sel)\<close>: the descendants of the element that match, in
  document order. The selector is matched in the whole tree, with the element as scope.\<close>

definition querySelectorAll :: "node \<Rightarrow> path \<Rightarrow> selector \<Rightarrow> path list" where
  "querySelectorAll root ctx sel =
     (case nodeAt root ctx of
        None \<Rightarrow> []
      | Some n \<Rightarrow> filter (\<lambda>p. matchesSel root ctx p sel) (map ((@) ctx) (descPaths n)))"

definition querySelector :: "node \<Rightarrow> path \<Rightarrow> selector \<Rightarrow> path option" where
  "querySelector root ctx sel =
     (case querySelectorAll root ctx sel of [] \<Rightarrow> None | p # ps \<Rightarrow> Some p)"

text \<open>\<open>document.querySelectorAll(sel)\<close>: every element of the document, the root
  element included; the scope is the root element.\<close>

definition documentQuerySelectorAll :: "node \<Rightarrow> selector \<Rightarrow> path list" where
  "documentQuerySelectorAll root sel =
     filter (\<lambda>p. matchesSel root [] p sel) ((if isElement root then [[]] else []) @ descPaths root)"

definition documentQuerySelector :: "node \<Rightarrow> selector \<Rightarrow> path option" where
  "documentQuerySelector root sel =
     (case documentQuerySelectorAll root sel of [] \<Rightarrow> None | p # ps \<Rightarrow> Some p)"

text \<open>\<open>element.closest(sel)\<close>: the element itself or its nearest ancestor that matches.\<close>

definition closest :: "node \<Rightarrow> path \<Rightarrow> selector \<Rightarrow> path option" where
  "closest root p sel = find (\<lambda>q. matchesSel root p q sel) (p # ancestors p)"

text \<open>\<open>parentElement\<close>: the root element of a tree has none.\<close>

definition parentElement :: "path \<Rightarrow> path option" where
  "parentElement p = (if p = [] then None else Some (butlast p))"

subsection \<open>innerHTML\<close>

text \<open>
  The HTML fragment serialisation of the children of an element. Text is escaped
  (\<open>&\<close>, no-break space, \<open><\<close>, \<open>>\<close>) except inside the raw text elements; attribute values
  are escaped (\<open>&\<close>, no-break space, double quote, \<open><\<close>, \<open>>\<close>). An element that
  serialises as void has no end tag and its child nodes (which only a script can have
  given it) are left out, so its own \<open>innerHTML\<close> is the empty string.
\<close>

definition voidElements :: "string list" where
  "voidElements = [''area'', ''base'', ''br'', ''col'', ''embed'', ''hr'', ''img'', ''input'',
     ''link'', ''meta'', ''source'', ''track'', ''wbr'', ''basefont'', ''bgsound'', ''frame'',
     ''keygen'', ''param'']"

definition rawTextElements :: "string list" where
  "rawTextElements = [''style'', ''script'', ''xmp'', ''iframe'', ''noembed'', ''noframes'',
     ''plaintext'', ''noscript'']"

definition escapeTextChar :: "char \<Rightarrow> string" where
  "escapeTextChar c =
     (if c = CHR ''&'' then ''&amp;'' else if c = CHR 0xA0 then ''&nbsp;''
      else if c = CHR ''<'' then ''&lt;'' else if c = CHR ''>'' then ''&gt;'' else [c])"

definition escapeAttrChar :: "char \<Rightarrow> string" where
  "escapeAttrChar c =
     (if c = CHR ''&'' then ''&amp;'' else if c = CHR 0xA0 then ''&nbsp;''
      else if c = dq then ''&quot;''
      else if c = CHR ''<'' then ''&lt;'' else if c = CHR ''>'' then ''&gt;'' else [c])"

definition serializeAttr :: "string \<times> string \<Rightarrow> string" where
  "serializeAttr a = '' '' @ fst a @ ''='' @ [dq] @ concat (map escapeAttrChar (snd a)) @ [dq]"

fun serialize :: "bool \<Rightarrow> node \<Rightarrow> string" where
  "serialize raw (TextNode t) = (if raw then t else concat (map escapeTextChar t))"
| "serialize raw (Element sv tg at cs) =
     ''<'' @ tg @ concat (map serializeAttr at) @ ''>'' @
     (if \<not> sv \<and> tg \<in> set voidElements then []
      else concat (map (serialize (\<not> sv \<and> tg \<in> set rawTextElements)) cs) @ ''</'' @ tg @ ''>'')"

definition innerHTML :: "node \<Rightarrow> string" where
  "innerHTML el =
     (if \<not> isSvg el \<and> tagName el \<in> set voidElements then []
      else concat (map (serialize (\<not> isSvg el \<and> tagName el \<in> set rawTextElements))
                     (childNodes el)))"


section \<open>Selector resolution (content/dom/selectors.ts)\<close>

text \<open>The element at a path that a query returned. A path that leads to no element
  reads as an empty text node.\<close>

definition elAt :: "node \<Rightarrow> path \<Rightarrow> node" where
  "elAt root p = (case elementAt root p of Some el \<Rightarrow> el | None \<Rightarrow> TextNode [])"

text \<open>Truthiness of a string that may be \<open>null\<close> or \<open>undefined\<close>, and the operator
  \<open>||\<close> on such strings.\<close>

definition truthy :: "string option \<Rightarrow> bool" where
  "truthy v = (v \<noteq> None \<and> v \<noteq> Some [])"

definition orElse :: "string option \<Rightarrow> string option \<Rightarrow> string option" where
  "orElse a b = (if truthy a then a else b)"

subsection \<open>findAllMessageElements\<close>

text \<open>\<open>article\<close>\<close>

definition selArticle :: selector where
  "selArticle = [Compound [Tag ''article'']]"

text \<open>\<open>[data-testid^="conversation-turn"]\<close>\<close>

definition selConversationTurn :: selector where
  "selConversationTurn = [Compound [AttrPrefix ''data-testid'' ''conversation-turn'']]"

text \<open>\<open>[data-message-author-role]\<close>\<close>

definition selAuthorRole :: selector where
  "selAuthorRole = [Compound [HasAttr ''data-message-author-role'']]"

text \<open>\<open>main\<close>\<close>

definition selMain :: selector where
  "selMain = [Compound [Tag ''main'']]"

text \<open>\<open>:scope > div > div > div\<close>\<close>

definition selScopeDivDivDiv :: selector where
  "selScopeDivDivDiv =
     [Comb (Comb (Comb (Compound [Scope]) Child [Tag ''div'']) Child [Tag ''div''])
        Child [Tag ''div'']]"

text \<open>\<open>.prose, .markdown, [class*="prose"], [class*="markdown"]\<close>\<close>

definition selProseMarkdown :: selector where
  "selProseMarkdown =
     [Compound [Cls ''prose''], Compound [Cls ''markdown''],
      Compound [AttrSub ''class'' ''prose''], Compound [AttrSub ''class'' ''markdown'']]"

text \<open>Strategy 4, inside \<open>main\<close>: the elements \<open>:scope > div > div > div\<close> whose text is
  longer than 20.\<close>

definition substantialDivs :: "node \<Rightarrow> path \<Rightarrow> path list" where
  "substantialDivs doc main =
     filter (\<lambda>el. length (textContent (elAt doc el)) > 20)
       (querySelectorAll doc main selScopeDivDivDiv)"

text \<open>Strategy 5: the grandparents of the content elements, each once, in the order in
  which the \<open>Set\<close> received them.\<close>

definition addGrandparent :: "path list \<Rightarrow> path \<Rightarrow> path list" where
  "addGrandparent parents el =
     (case parentElement el of
        None \<Rightarrow> parents
      | Some pa \<Rightarrow>
          (case parentElement pa of
             None \<Rightarrow> parents
           | Some g \<Rightarrow> if g \<in> set parents then parents else parents @ [g]))"

definition contentGrandparents :: "node \<Rightarrow> path list" where
  "contentGrandparents doc =
     (let contentElements = documentQuerySelectorAll doc selProseMarkdown
      in if length contentElements > 0 then foldl addGrandparent [] contentElements else [])"

definition findAllMessageElements :: "node \<Rightarrow> path list" where
  "findAllMessageElements doc =
     (let elements = documentQuerySelectorAll doc selArticle in
      if length elements > 0 then elements else
      let elements = documentQuerySelectorAll doc selConversationTurn in
      if length elements > 0 then elements else
      let elements = documentQuerySelectorAll doc selAuthorRole in
      if length elements > 0 then elements else
      (case documentQuerySelector doc selMain of
         Some main \<Rightarrow>
           (let elements = substantialDivs doc main in
            if length elements > 0 then elements else contentGrandparents doc)
       | None \<Rightarrow> contentGrandparents doc))"

subsection \<open>getMessageRole\<close>

datatype role = User | Assistant | Unknown

definition getMessageRole :: "node \<Rightarrow> path \<Rightarrow> role" where
  "getMessageRole doc element =
     (let el = elAt doc element;
          roleAttr = getAttribute el ''data-message-author-role''
      in if roleAttr = Some ''user'' then User
         else if roleAttr = Some ''assistant'' then Assistant
         else
           (let nestedRole =
                  (case querySelector doc element selAuthorRole of
                     None \<Rightarrow> None
                   | Some nested \<Rightarrow> getAttribute (elAt doc nested) ''data-message-author-role'')
            in if nestedRole = Some ''user'' then User
               else if nestedRole = Some ''assistant'' then Assistant
               else
                 (let className = classNameAsString el @ '' '' @ take 500 (innerHTML el)
                  in if includesStr className ''user'' \<or> includesStr className ''human''
                     then User
                     else if includesStr className ''assistant'' \<or> includesStr className ''gpt''
                             \<or> includesStr className ''ai''
                     then Assistant
                     else Unknown)))"

subsection \<open>getMessageContent\<close>

text \<open>\<open>.markdown\<close>, \<open>.prose\<close>, \<open>[class*="markdown"]\<close>, \<open>[class*="prose"]\<close>,
  \<open>[class*="text-base"]\<close>, \<open>div[class*="whitespace"]\<close>\<close>

definition contentSelectors :: "selector list" where
  "contentSelectors =
     [[Compound [Cls ''markdown'']], [Compound [Cls ''prose'']],
      [Compound [AttrSub ''class'' ''markdown'']], [Compound [AttrSub ''class'' ''prose'']],
      [Compound [AttrSub ''class'' ''text-base'']],
      [Compound [Tag ''div'', AttrSub ''class'' ''whitespace'']]]"

fun firstSelected :: "node \<Rightarrow> path \<Rightarrow> selector list \<Rightarrow> path option" where
  "firstSelected doc element [] = None"
| "firstSelected doc element (sel # sels) =
     (case querySelector doc element sel of
        Some content \<Rightarrow> Some content
      | None \<Rightarrow> firstSelected doc element sels)"

definition getMessageContent :: "node \<Rightarrow> path \<Rightarrow> path option" where
  "getMessageContent doc element =
     (case firstSelected doc element contentSelectors of
        Some content \<Rightarrow> Some content
      | None \<Rightarrow>
          if textContent (elAt doc element) \<noteq> [] \<and>
             length (trim (textContent (elAt doc element))) > 0
          then Some element else None)"


section \<open>The page and its mutation\<close>

text \<open>
  The state that the parser works on: the live document and the trees that are not part
  of it (the clones that \<open>cloneNode\<close> makes). An element handle names its tree and its
  path in the tree. The operations that change a tree take the handle of the node they
  change, so a write to the live document is a write through a \<open>Live\<close> handle.
\<close>

record page =
  document :: node
  detached :: "node list"

datatype treeRef = Live | Detached nat

type_synonym handle = "treeRef \<times> path"

fun treeOf :: "page \<Rightarrow> treeRef \<Rightarrow> node" where
  "treeOf pg Live = document pg"
| "treeOf pg (Detached k) = (if k < length (detached pg) then detached pg ! k else TextNode [])"

fun setTree :: "page \<Rightarrow> treeRef \<Rightarrow> node \<Rightarrow> page" where
  "setTree pg Live n = pg\<lparr>document := n\<rparr>"
| "setTree pg (Detached k) n = pg\<lparr>detached := (detached pg)[k := n]\<rparr>"

fun updateAt :: "node \<Rightarrow> path \<Rightarrow> (node \<Rightarrow> node) \<Rightarrow> node" where
  "updateAt n [] f = f n"
| "updateAt (TextNode t) (i # p) f = TextNode t"
| "updateAt (Element sv tg at cs) (i # p) f =
     (if i < length cs then Element sv tg at (cs[i := updateAt (cs ! i) p f])
      else Element sv tg at cs)"

text \<open>\<open>element.cloneNode(true)\<close>: a copy of the subtree, as a new tree.\<close>

definition cloneNode :: "page \<Rightarrow> handle \<Rightarrow> page \<times> handle" where
  "cloneNode pg h =
     (pg\<lparr>detached := detached pg @ [elAt (treeOf pg (fst h)) (snd h)]\<rparr>,
      (Detached (length (detached pg)), []))"

text \<open>\<open>node.replaceWith(new)\<close>: the parent's child becomes the new node. A node without
  a parent stays as it is.\<close>

definition replaceWith :: "page \<Rightarrow> handle \<Rightarrow> node \<Rightarrow> page" where
  "replaceWith pg h new =
     (if snd h = [] then pg
      else setTree pg (fst h) (updateAt (treeOf pg (fst h)) (snd h) (\<lambda>old. new)))"

text \<open>\<open>element.append(text)\<close>: a new text node after the last child.\<close>

fun appendChild :: "node \<Rightarrow> node \<Rightarrow> node" where
  "appendChild new (TextNode t) = TextNode t"
| "appendChild new (Element sv tg at cs) = Element sv tg at (cs @ [new])"

definition append :: "page \<Rightarrow> handle \<Rightarrow> string \<Rightarrow> page" where
  "append pg h t = setTree pg (fst h) (updateAt (treeOf pg (fst h)) (snd h) (appendChild (TextNode t)))"

text \<open>
  \<open>list.forEach(callback)\<close> over the static list that \<open>querySelectorAll\<close> returned. An
  element of the list that an earlier callback has detached from the tree, together with
  an ancestor, is no longer found at its path; what the callback does to it stays outside
  the tree, and the model skips it.
\<close>

definition forEach :: "(page \<Rightarrow> handle \<Rightarrow> node \<Rightarrow> page) \<Rightarrow> page \<Rightarrow> treeRef \<Rightarrow> path list \<Rightarrow> page" where
  "forEach callback pg r ps =
     foldl (\<lambda>pg' p. case elementAt (treeOf pg' r) p of
                       None \<Rightarrow> pg'
                     | Some el \<Rightarrow> callback pg' (r, p) el) pg ps"


section \<open>The parser (content/dom/parser.ts)\<close>

subsection \<open>The data model (types/index.d.ts)\<close>

record latexExpression =
  raw :: string
  isBlock :: bool
  position :: nat

datatype contentBlock =
    TextBlock string bool "latexExpression list"
  | CodeBlock "string option" string "string option"
  | TableBlock "string list" "string list list"
  | ImageBlock string string bool
  | ThinkingBlock string bool

record message =
  msgId :: string
  msgIndex :: nat
  msgRole :: role
  msgContent :: "contentBlock list"
  rawHtml :: string
  timestamp :: "nat option"
  isSelected :: bool

text \<open>\<open>ExtractionOptions\<close>, and \<open>Partial<ExtractionOptions>\<close> with every field optional.
  \<open>maxMessages\<close> is a number; the model takes it to be an integer.\<close>

record extractionOptions =
  includeRawHtml :: bool
  extractTimestamps :: bool
  parseLaTeX :: bool
  parseCodeBlocks :: bool
  parseTables :: bool
  includeThinkingBlocks :: bool
  maxMessages :: int

record partialExtractionOptions =
  includeRawHtml_opt :: "bool option"
  extractTimestamps_opt :: "bool option"
  parseLaTeX_opt :: "bool option"
  parseCodeBlocks_opt :: "bool option"
  parseTables_opt :: "bool option"
  includeThinkingBlocks_opt :: "bool option"
  maxMessages_opt :: "int option"

definition DEFAULT_EXTRACTION_OPTIONS :: extractionOptions where
  "DEFAULT_EXTRACTION_OPTIONS =
     \<lparr>includeRawHtml = True, extractTimestamps = True, parseLaTeX = True,
      parseCodeBlocks = True, parseTables = True, includeThinkingBlocks = True,
      maxMessages = 0\<rparr>"

text \<open>\<open>{ ...DEFAULT_EXTRACTION_OPTIONS, ...options }\<close>\<close>

definition mergeOptions :: "extractionOptions \<Rightarrow> partialExtractionOptions \<Rightarrow> extractionOptions" where
  "mergeOptions d options =
     \<lparr>includeRawHtml = orDefault (includeRawHtml_opt options) (includeRawHtml d),
      extractTimestamps = orDefault (extractTimestamps_opt options) (extractTimestamps d),
      parseLaTeX = orDefault (parseLaTeX_opt options) (parseLaTeX d),
      parseCodeBlocks = orDefault (parseCodeBlocks_opt options) (parseCodeBlocks d),
      parseTables = orDefault (parseTables_opt options) (parseTables d),
      includeThinkingBlocks = orDefault (includeThinkingBlocks_opt options) (includeThinkingBlocks d),
      maxMessages = orDefault (maxMessages_opt options) (maxMessages d)\<rparr>"

text \<open>What a call does: it returns a value, it throws, or it never returns.\<close>

datatype 'a outcome = Returned 'a | Threw thrown | Diverged

subsection \<open>createTextBlock\<close>

text \<open>\<open>/\$([^$]+)\$/g\<close> and \<open>/\$\$([^$]+)\$\$/g\<close>\<close>

definition inlineRegex :: rx where
  "inlineRegex = seqs [Lit ''$'', Grp (Plus (NoneOf ''$'')), Lit ''$'']"

definition blockRegex :: rx where
  "blockRegex = seqs [Lit ''$$'', Grp (Plus (NoneOf ''$'')), Lit ''$$'']"

definition group1 :: "string list \<Rightarrow> string" where
  "group1 caps = (case caps of [] \<Rightarrow> [] | c # cs \<Rightarrow> c)"

definition toExpression :: "bool \<Rightarrow> nat \<times> string list \<times> nat \<Rightarrow> latexExpression" where
  "toExpression blk m = \<lparr>raw = group1 (fst (snd m)), isBlock = blk, position = fst m\<rparr>"

text \<open>The result is \<open>None\<close> when one of the two \<open>exec\<close> loops does not end.\<close>

definition createTextBlock :: "string \<Rightarrow> extractionOptions \<Rightarrow> contentBlock option" where
  "createTextBlock text' options =
     (if parseLaTeX options then
        (case execAll inlineRegex text' of
           None \<Rightarrow> None
         | Some inl \<Rightarrow>
             (case execAll blockRegex text' of
                None \<Rightarrow> None
              | Some blk \<Rightarrow>
                  Some (TextBlock text' (inl \<noteq> [] \<or> blk \<noteq> [])
                          (map (toExpression False) inl @ map (toExpression True) blk))))
      else Some (TextBlock text' False []))"

subsection \<open>cleanExtractedLatex\<close>

definition cleanExtractedLatex_rules :: "rule list" where
  "cleanExtractedLatex_rules =
    [ruleBar, ruleLangle, ruleRangle, ruleBackslash,
     ruleSpacedFrac, ruleSpacedSqrt, ruleSpacedText,
     ruleOperatorname1, ruleOperatorname2, ruleOperatorname3,
     ruleLeft1, ruleLeft2,
     ruleFracParens, ruleFracBraces1, ruleFracBraces2,
     ruleRight3, ruleRight4, ruleRight1, ruleRight5,
     ruleMathrm, ruleWedge, ruleCaret,
     ruleUnderline, ruleBoldsymbol,
     ruleQuad, ruleQquad, ruleDoubleBackslash]"

definition cleanExtractedLatex :: "string \<Rightarrow> string" where
  "cleanExtractedLatex latex = applyRules cleanExtractedLatex_rules latex"

subsection \<open>getElementTextWithStructure\<close>

text \<open>\<open>del, s, strike\<close>\<close>

definition selStrike :: selector where
  "selStrike = [Compound [Tag ''del''], Compound [Tag ''s''], Compound [Tag ''strike'']]"

text \<open>\<open>[style*="line-through"]\<close>\<close>

definition selLineThrough :: selector where
  "selLineThrough = [Compound [AttrSub ''style'' ''line-through'']]"

text \<open>\<open>.katex\<close>, \<open>annotation[encoding="application/x-tex"]\<close>, \<open>.katex-display\<close>\<close>

definition selKatex :: selector where
  "selKatex = [Compound [Cls ''katex'']]"

definition selTexAnnotation :: selector where
  "selTexAnnotation = [Compound [Tag ''annotation'', AttrEq ''encoding'' ''application/x-tex'']]"

definition selKatexDisplay :: selector where
  "selKatexDisplay = [Compound [Cls ''katex-display'']]"

text \<open>\<open>mjx-container\<close>, \<open>script[type*="math"]\<close>\<close>

definition selMjx :: selector where
  "selMjx = [Compound [Tag ''mjx-container'']]"

definition selMathScript :: selector where
  "selMathScript = [Compound [Tag ''script'', AttrSub ''type'' ''math'']]"

text \<open>\<open>span.math, span.math-inline, span.math-display\<close>, \<open>annotation\<close>\<close>

definition selMathSpan :: selector where
  "selMathSpan =
     [Compound [Tag ''span'', Cls ''math''], Compound [Tag ''span'', Cls ''math-inline''],
      Compound [Tag ''span'', Cls ''math-display'']]"

definition selAnnotation :: selector where
  "selAnnotation = [Compound [Tag ''annotation'']]"

text \<open>\<open>br\<close> and \<open>p, div, h1, h2, h3, h4, h5, h6\<close>\<close>

definition selBr :: selector where
  "selBr = [Compound [Tag ''br'']]"

definition selBlocks :: selector where
  "selBlocks =
     [Compound [Tag ''p''], Compound [Tag ''div''], Compound [Tag ''h1''], Compound [Tag ''h2''],
      Compound [Tag ''h3''], Compound [Tag ''h4''], Compound [Tag ''h5''], Compound [Tag ''h6'']]"

definition delimited :: "bool \<Rightarrow> string \<Rightarrow> node" where
  "delimited blk latex =
     (let delimiter = (if blk then ''$$'' else ''$'') in TextNode (delimiter @ latex @ delimiter))"

definition optText :: "node \<Rightarrow> path option \<Rightarrow> string option" where
  "optText tree q = (case q of None \<Rightarrow> None | Some p \<Rightarrow> Some (textContent (elAt tree p)))"

definition unstrike :: "page \<Rightarrow> handle \<Rightarrow> node \<Rightarrow> page" where
  "unstrike pg h el = replaceWith pg h (TextNode (textContent el))"

definition katexToText :: "page \<Rightarrow> handle \<Rightarrow> node \<Rightarrow> page" where
  "katexToText pg h katex =
     (let tree = treeOf pg (fst h);
          annotation = querySelector tree (snd h) selTexAnnotation
      in if annotation \<noteq> None \<and> truthy (optText tree annotation) then
           (let latex = cleanExtractedLatex (trim (orDefault (optText tree annotation) []));
                blk = (closest tree (snd h) selKatexDisplay \<noteq> None)
            in replaceWith pg h (delimited blk latex))
         else pg)"

definition mjxToText :: "page \<Rightarrow> handle \<Rightarrow> node \<Rightarrow> page" where
  "mjxToText pg h mjx =
     (let tree = treeOf pg (fst h);
          formula = orElse (getAttribute mjx ''data-formula'')
                      (optText tree (querySelector tree (snd h) selMathScript))
      in if truthy formula then
           (let latex = cleanExtractedLatex (orDefault formula []);
                blk = (getAttribute mjx ''display'' = Some ''block'' \<or>
                       ''MathJax_Display'' \<in> set (classList mjx))
            in replaceWith pg h (delimited blk latex))
         else pg)"

definition mathSpanToText :: "page \<Rightarrow> handle \<Rightarrow> node \<Rightarrow> page" where
  "mathSpanToText pg h span =
     (let tree = treeOf pg (fst h);
          rawLatex = orElse (getAttribute span ''data-latex'')
                       (orElse (getAttribute span ''data-value'')
                          (optText tree (querySelector tree (snd h) selAnnotation)))
      in if truthy rawLatex then
           (let latex = cleanExtractedLatex (orDefault rawLatex []);
                blk = (''math-display'' \<in> set (classList span))
            in replaceWith pg h (delimited blk latex))
         else pg)"

definition brToNewline :: "page \<Rightarrow> handle \<Rightarrow> node \<Rightarrow> page" where
  "brToNewline pg h br = replaceWith pg h (TextNode [nl])"

definition newlineAfterBlock :: "page \<Rightarrow> handle \<Rightarrow> node \<Rightarrow> page" where
  "newlineAfterBlock pg h block = (if textContent block \<noteq> [] then append pg h [nl] else pg)"

text \<open>Each \<open>clone.querySelectorAll(sel).forEach(callback)\<close> statement: the list is taken
  from the clone as the statements before have left it.\<close>

definition rewrite :: "selector \<Rightarrow> (page \<Rightarrow> handle \<Rightarrow> node \<Rightarrow> page) \<Rightarrow> treeRef \<Rightarrow> page \<Rightarrow> page" where
  "rewrite sel callback r pg = forEach callback pg r (querySelectorAll (treeOf pg r) [] sel)"

text \<open>The seven rewriting statements, in the order of the source, on the tree \<open>r\<close>.\<close>

definition structuralRewrites :: "treeRef \<Rightarrow> page \<Rightarrow> page" where
  "structuralRewrites r pg =
     rewrite selBlocks newlineAfterBlock r
      (rewrite selBr brToNewline r
        (rewrite selMathSpan mathSpanToText r
          (rewrite selMjx mjxToText r
            (rewrite selKatex katexToText r
              (rewrite selLineThrough unstrike r
                (rewrite selStrike unstrike r pg))))))"

text \<open>\<open>return clone.textContent || ''\<close>, with the page as it then is.\<close>

definition cloneText :: "treeRef \<Rightarrow> page \<Rightarrow> page \<times> string" where
  "cloneText r pg = (pg, textContent (treeOf pg r))"

definition getElementTextWithStructure :: "page \<Rightarrow> handle \<Rightarrow> page \<times> string" where
  "getElementTextWithStructure pg element =
     (case cloneNode pg element of
        (pg0, clone) \<Rightarrow> cloneText (fst clone) (structuralRewrites (fst clone) pg0))"

subsection \<open>parseListToText\<close>

text \<open>\<open>:scope > li\<close>\<close>

definition selScopeLi :: selector where
  "selScopeLi = [Comb (Compound [Scope]) Child [Tag ''li'']]"

text \<open>The bullet prefix as the source file has it is four code units: U+00E2, U+20AC,
  U+00A2 and a space. U+20AC lies outside the range of \<^typ>\<open>char\<close>. The model writes
  \<open>0x80\<close> in its place, so here, and only here, the text of the model differs from the
  text of the program: in one code unit that is no white space, that no pattern of the
  modelled functions names, and that leaves lengths and indices as they are.\<close>

definition bulletPrefix :: string where
  "bulletPrefix = [CHR 0xE2, CHR 0x80, CHR 0xA2, CHR 0x20]"

text \<open>\<open>/\n+/g\<close>\<close>

definition newlines :: rx where
  "newlines = Plus (Lit [nl])"

fun joinWith :: "string \<Rightarrow> string list \<Rightarrow> string" where
  "joinWith sep [] = []"
| "joinWith sep [l] = l"
| "joinWith sep (l # ls) = l @ sep @ joinWith sep ls"

fun listItems :: "bool \<Rightarrow> nat \<Rightarrow> path list \<Rightarrow> page \<Rightarrow> string list \<Rightarrow> page \<times> string list" where
  "listItems isOrdered index [] pg lines = (pg, lines)"
| "listItems isOrdered index (item # items) pg lines =
     (let prefix = (if isOrdered then natToString (index + 1) @ ''. '' else bulletPrefix);
          (pg', t) = getElementTextWithStructure pg (Live, item);
          text' = trim t
      in listItems isOrdered (Suc index) items pg'
           (if text' \<noteq> [] then lines @ [prefix @ replaceG newlines [TLit '' ''] text']
            else lines))"

definition parseListToText :: "page \<Rightarrow> path \<Rightarrow> bool \<Rightarrow> page \<times> string" where
  "parseListToText pg listElement isOrdered =
     (let items = querySelectorAll (document pg) listElement selScopeLi;
          (pg', lines) = listItems isOrdered 0 items pg []
      in (pg', joinWith [nl] lines))"

subsection \<open>parseCodeBlock\<close>

text \<open>A pattern anchored with \<open>^\<close>, not global: it can only match at index 0.\<close>

definition replaceAtStart :: "rx \<Rightarrow> titem list \<Rightarrow> string \<Rightarrow> string" where
  "replaceAtStart r t s =
     (case firstMatch r [] s of None \<Rightarrow> s | Some (n, caps) \<Rightarrow> subst t caps @ drop n s)"

text \<open>\<open>code\<close> and \<open>[class*="filename"], [class*="file-name"]\<close>\<close>

definition selCode :: selector where
  "selCode = [Compound [Tag ''code'']]"

definition selFilename :: selector where
  "selFilename = [Compound [AttrSub ''class'' ''filename''], Compound [AttrSub ''class'' ''file-name'']]"

definition parseCodeBlock :: "node \<Rightarrow> path \<Rightarrow> contentBlock option" where
  "parseCodeBlock doc element =
     (let codeElement = (case querySelector doc element selCode of Some c \<Rightarrow> c | None \<Rightarrow> element);
          code = textContent (elAt doc codeElement)
      in if trim code = [] then None
         else
           (let langClass = find (\<lambda>c. startsWith c ''language-'' \<or> startsWith c ''lang-'')
                              (classList (elAt doc codeElement));
                language =
                  map_option
                    (replaceAtStart (Grp (Alt (Lit ''language-'') (Lit ''lang-''))) []) langClass;
                filename =
                  (case parentElement element of
                     None \<Rightarrow> None
                   | Some parent \<Rightarrow>
                       (case querySelector doc parent selFilename of
                          None \<Rightarrow> None
                        | Some filenameElement \<Rightarrow>
                            (let t = trim (textContent (elAt doc filenameElement))
                             in if t = [] then None else Some t)))
            in Some (CodeBlock language (trim code) filename)))"

subsection \<open>parseTableBlock\<close>

text \<open>\<open>thead th, thead td\<close>; \<open>tr\<close>; \<open>th, td\<close>; \<open>tbody tr\<close>; \<open>td\<close>; \<open>td, th\<close>\<close>

definition selHeadCells :: selector where
  "selHeadCells =
     [Comb (Compound [Tag ''thead'']) Descendant [Tag ''th''],
      Comb (Compound [Tag ''thead'']) Descendant [Tag ''td'']]"

definition selTr :: selector where
  "selTr = [Compound [Tag ''tr'']]"

definition selThTd :: selector where
  "selThTd = [Compound [Tag ''th''], Compound [Tag ''td'']]"

definition selBodyRows :: selector where
  "selBodyRows = [Comb (Compound [Tag ''tbody'']) Descendant [Tag ''tr'']]"

definition selTd :: selector where
  "selTd = [Compound [Tag ''td'']]"

definition selTdTh :: selector where
  "selTdTh = [Compound [Tag ''td''], Compound [Tag ''th'']]"

definition cellTexts :: "node \<Rightarrow> path \<Rightarrow> selector \<Rightarrow> string list" where
  "cellTexts doc row sel =
     map (\<lambda>cell. trim (textContent (elAt doc cell))) (querySelectorAll doc row sel)"

definition parseTableBlock :: "node \<Rightarrow> path \<Rightarrow> contentBlock" where
  "parseTableBlock doc element =
     (let headers0 = cellTexts doc element selHeadCells;
          headers =
            (if length headers0 = 0 then
               (case querySelector doc element selTr of
                  None \<Rightarrow> headers0
                | Some firstRow \<Rightarrow> cellTexts doc firstRow selThTd)
             else headers0);
          rows0 = filter (\<lambda>rowData. length rowData > 0)
                    (map (\<lambda>row. cellTexts doc row selTd) (querySelectorAll doc element selBodyRows));
          rows =
            (if length rows0 = 0 then
               filter (\<lambda>rowData. length rowData > 0)
                 (map (\<lambda>row. cellTexts doc row selTdTh) (drop 1 (querySelectorAll doc element selTr)))
             else rows0)
      in TableBlock headers rows)"

subsection \<open>isThinkingElement and parseThinkingBlock\<close>

text \<open>\<open>[data-thinking], [class*="thinking"]\<close>\<close>

definition selThinkingBlock :: selector where
  "selThinkingBlock = [Compound [HasAttr ''data-thinking''], Compound [AttrSub ''class'' ''thinking'']]"

text \<open>The \<open>TypeError\<close> of calling \<open>includes\<close> on the \<open>className\<close> of an SVG element.\<close>

definition classNameTypeError :: thrown where
  "classNameTypeError = ErrorObject ''TypeError'' ''element.className.includes is not a function''"

definition isThinkingElement :: "node \<Rightarrow> path \<Rightarrow> bool outcome" where
  "isThinkingElement doc element =
     (if matches doc element selThinkingBlock then Returned True
      else if getAttribute (elAt doc element) ''data-thinking'' \<noteq> None then Returned True
      else if isSvg (elAt doc element) then Threw classNameTypeError
      else Returned (includesStr (className (elAt doc element)) ''thinking''))"

definition parseThinkingBlock :: "node \<Rightarrow> path \<Rightarrow> contentBlock" where
  "parseThinkingBlock doc element =
     ThinkingBlock (trim (textContent (elAt doc element)))
       (getAttribute (elAt doc element) ''data-collapsed'' = Some ''true'' \<or>
        ''collapsed'' \<in> set (classList (elAt doc element)))"

subsection \<open>parseContentBlocks\<close>

text \<open>\<open>blocks.push(createTextBlock(text, options))\<close>, as the blocks to add.\<close>

definition pushTextBlock :: "page \<Rightarrow> string \<Rightarrow> extractionOptions \<Rightarrow> page \<times> contentBlock list outcome" where
  "pushTextBlock pg text' options =
     (case createTextBlock text' options of
        None \<Rightarrow> (pg, Diverged)
      | Some block \<Rightarrow> (pg, Returned [block]))"

text \<open>One round of the loop over the children: the blocks that the child adds.\<close>

definition parseChild :: "extractionOptions \<Rightarrow> path \<Rightarrow> page \<Rightarrow> page \<times> contentBlock list outcome" where
  "parseChild options child pg =
     (let doc = document pg;
          tag = tagName (elAt doc child)
      in if tag = ''pre'' \<and> parseCodeBlocks options then
           (pg, Returned (case parseCodeBlock doc child of None \<Rightarrow> [] | Some block \<Rightarrow> [block]))
         else if tag = ''table'' \<and> parseTables options then
           (pg, Returned [parseTableBlock doc child])
         else
           (case (if includeThinkingBlocks options then isThinkingElement doc child
                  else Returned False) of
              Threw e \<Rightarrow> (pg, Threw e)
            | Diverged \<Rightarrow> (pg, Diverged)
            | Returned True \<Rightarrow> (pg, Returned [parseThinkingBlock doc child])
            | Returned False \<Rightarrow>
                if tag = ''ol'' \<or> tag = ''ul'' then
                  (let (pg', listText) = parseListToText pg child (tag = ''ol'')
                   in if listText \<noteq> [] then pushTextBlock pg' listText options
                      else (pg', Returned []))
                else
                  (let (pg', text') = getElementTextWithStructure pg (Live, child)
                   in if trim text' \<noteq> [] then pushTextBlock pg' text' options
                      else (pg', Returned []))))"

fun parseChildren ::
  "extractionOptions \<Rightarrow> path \<Rightarrow> nat list \<Rightarrow> page \<Rightarrow> contentBlock list \<Rightarrow>
   page \<times> contentBlock list outcome" where
  "parseChildren options contentElement [] pg blocks = (pg, Returned blocks)"
| "parseChildren options contentElement (i # rest') pg blocks =
     (case parseChild options (contentElement @ [i]) pg of
        (pg', Returned new) \<Rightarrow> parseChildren options contentElement rest' pg' (blocks @ new)
      | (pg', Threw e) \<Rightarrow> (pg', Threw e)
      | (pg', Diverged) \<Rightarrow> (pg', Diverged))"

definition parseContentBlocks ::
  "page \<Rightarrow> path \<Rightarrow> extractionOptions \<Rightarrow> page \<times> contentBlock list outcome" where
  "parseContentBlocks pg contentElement options =
     (let el = elAt (document pg) contentElement;
          kids = children el
      in if length kids = 0 then
           (let text' = trim (textContent el)
            in if text' \<noteq> [] then pushTextBlock pg text' options else (pg, Returned []))
         else
           (case parseChildren options contentElement kids pg [] of
              (pg', Returned blocks) \<Rightarrow>
                if length blocks = 0 then
                  (let allText = trim (textContent el)
                   in if allText \<noteq> [] then pushTextBlock pg' allText options
                      else (pg', Returned []))
                else (pg', Returned blocks)
            | (pg', Threw e) \<Rightarrow> (pg', Threw e)
            | (pg', Diverged) \<Rightarrow> (pg', Diverged)))"

subsection \<open>parseMessageElement\<close>

text \<open>\<open>[data-message-id]\<close>\<close>

definition selMessageId :: selector where
  "selMessageId = [Compound [HasAttr ''data-message-id'']]"

definition extractMessageId :: "node \<Rightarrow> path \<Rightarrow> string option" where
  "extractMessageId doc element =
     (case querySelector doc element selMessageId of
        Some messageIdAttr \<Rightarrow> getAttribute (elAt doc messageIdAttr) ''data-message-id''
      | None \<Rightarrow>
          (let testId = getAttribute (elAt doc element) ''data-testid''
           in if truthy testId then testId
              else
                (let elementId = getAttribute (elAt doc element) ''id''
                 in if truthy elementId then elementId else None)))"

definition parseMessageElement ::
  "page \<Rightarrow> path \<Rightarrow> nat \<Rightarrow> extractionOptions \<Rightarrow> page \<times> message option outcome" where
  "parseMessageElement pg element index options =
     (let doc = document pg;
          role' = getMessageRole doc element;
          contentElement = getMessageContent doc element
      in case (case contentElement of
                 Some ce \<Rightarrow> parseContentBlocks pg ce options
               | None \<Rightarrow> (pg, Returned [])) of
           (pg', Threw e) \<Rightarrow> (pg', Threw e)
         | (pg', Diverged) \<Rightarrow> (pg', Diverged)
         | (pg', Returned content) \<Rightarrow>
             (let html' = orDefault
                     (orElse (map_option (\<lambda>ce. innerHTML (elAt doc ce)) contentElement)
                        (orElse (Some (innerHTML (elAt doc element))) (Some []))) []
              in if role' = Unknown \<and> length content = 0 \<and> trim html' = [] then
                   (pg', Returned None)
                 else
                   (let messageId = orDefault
                           (orElse (extractMessageId doc element)
                              (Some (''msg-'' @ natToString index))) [];
                        finalRole = (if role' = Unknown
                                     then (if index mod 2 = 0 then User else Assistant)
                                     else role')
                    in (pg', Returned (Some
                         \<lparr>msgId = messageId, msgIndex = index, msgRole = finalRole,
                          msgContent = content, rawHtml = html', timestamp = None,
                          isSelected = True\<rparr>)))))"

subsection \<open>extractMessages\<close>

record messageExtractionResult =
  success :: bool
  data :: "message list option"
  errorText :: "string option"
  warnings :: "string list"

text \<open>\<open>${error}\<close>: the string conversion of the value caught.\<close>

fun errorToString :: "thrown \<Rightarrow> string" where
  "errorToString (ErrorObject name msg) =
     (if msg = [] then name else if name = [] then msg else name @ '': '' @ msg)"
| "errorToString OtherValue = ''[object Object]''"

text \<open>The loop over \<open>elementsToProcess\<close>. A message that fails to parse leaves a warning
  and the loop goes on.\<close>

fun parseElements ::
  "extractionOptions \<Rightarrow> nat \<Rightarrow> path list \<Rightarrow> page \<Rightarrow> message list \<Rightarrow> string list \<Rightarrow>
   page \<times> (message list \<times> string list) outcome" where
  "parseElements opts index [] pg messages warns = (pg, Returned (messages, warns))"
| "parseElements opts index (element # rest') pg messages warns =
     (case parseMessageElement pg element index opts of
        (pg', Returned (Some msg)) \<Rightarrow>
          parseElements opts (Suc index) rest' pg' (messages @ [msg]) warns
      | (pg', Returned None) \<Rightarrow> parseElements opts (Suc index) rest' pg' messages warns
      | (pg', Threw e) \<Rightarrow>
          parseElements opts (Suc index) rest' pg' messages
            (warns @ [''Failed to parse message at index '' @ natToString index @ '': '' @
                      errorToString e])
      | (pg', Diverged) \<Rightarrow> (pg', Diverged))"

definition fallbackMessage :: "node \<Rightarrow> path \<Rightarrow> message" where
  "fallbackMessage doc main =
     \<lparr>msgId = ''fallback-0'', msgIndex = 0, msgRole = Assistant,
      msgContent = [TextBlock (trim (textContent (elAt doc main))) False []],
      rawHtml = innerHTML (elAt doc main), timestamp = None, isSelected = True\<rparr>"

definition noMessagesFound :: "string list \<Rightarrow> messageExtractionResult" where
  "noMessagesFound warns =
     \<lparr>success = False, data = None,
      errorText = Some ''No messages found in conversation. Please make sure the page is fully loaded.'',
      warnings = warns\<rparr>"

definition intToString :: "int \<Rightarrow> string" where
  "intToString i = (if i < 0 then ''-'' @ natToString (nat (- i)) else natToString (nat i))"

text \<open>The branch of \<open>extractMessages\<close> for an empty list of message elements: one more
  fallback, the text of \<open>main\<close>.\<close>

definition extractFallback :: "page \<Rightarrow> page \<times> messageExtractionResult outcome" where
  "extractFallback pg =
     (let doc = document pg
      in case documentQuerySelector doc selMain of
           Some main \<Rightarrow>
             (let warns = [''Using fallback extraction - structure may not be ideal''];
                  content = textContent (elAt doc main)
              in if trim content \<noteq> [] then
                   (pg, Returned \<lparr>success = True, data = Some [fallbackMessage doc main],
                                  errorText = None, warnings = warns\<rparr>)
                 else (pg, Returned (noMessagesFound warns)))
         | None \<Rightarrow> (pg, Returned (noMessagesFound [])))"

text \<open>The check of the message limit: the warning, and the elements that are parsed.\<close>

definition limitWarning :: "extractionOptions \<Rightarrow> nat \<Rightarrow> string list" where
  "limitWarning opts n =
     (if maxMessages opts > 0 \<and> int n > maxMessages opts
      then [''Conversation has '' @ natToString n @ '' messages, limiting to '' @
            intToString (maxMessages opts)]
      else [])"

definition elementsToProcess :: "extractionOptions \<Rightarrow> path list \<Rightarrow> path list" where
  "elementsToProcess opts messageElements =
     (if maxMessages opts > 0 then take (nat (maxMessages opts)) messageElements
      else messageElements)"

text \<open>The end of \<open>extractMessages\<close>, after the loop.\<close>

fun finish :: "(message list \<times> string list) outcome \<Rightarrow> messageExtractionResult outcome" where
  "finish (Returned (msgs, warns)) =
     (if length msgs = 0 then
        Returned \<lparr>success = False, data = None,
                  errorText = Some ''Failed to parse any messages'', warnings = warns\<rparr>
      else Returned \<lparr>success = True, data = Some msgs, errorText = None, warnings = warns\<rparr>)"
| "finish (Threw e) = Threw e"
| "finish Diverged = Diverged"

definition extractMessages ::
  "page \<Rightarrow> partialExtractionOptions \<Rightarrow> page \<times> messageExtractionResult outcome" where
  "extractMessages pg options =
     (let opts = mergeOptions DEFAULT_EXTRACTION_OPTIONS options;
          messageElements = findAllMessageElements (document pg)
      in if length messageElements = 0 then extractFallback pg
         else
           (let (pg', r) = parseElements opts 0 (elementsToProcess opts messageElements) pg []
                             (limitWarning opts (length messageElements))
            in (pg', finish r)))"


section \<open>The export handler (service worker)\<close>

text \<open>\<open>MESSAGE_LIMITS\<close> of shared/config.ts.\<close>

definition MESSAGE_LIMITS_warning :: nat where
  "MESSAGE_LIMITS_warning = 500"


datatype exportFormat = Pdf | Markdown | PlainText | Json | Csv | Image

datatype exportStatus = Pending | Extracting | Rendering | Generating | Completed | Failed

text \<open>Of \<open>ExportConfig\<close> the handler reads the format only; the other fields travel in
  the extension of the record.\<close>

record exportConfig =
  format :: exportFormat

record conversation =
  convId :: string
  title :: string
  url :: string
  messages :: "message list"
  messageCount :: nat









section \<open>Characters that a pattern requires\<close>





section \<open>Frame conditions\<close>

text \<open>\<open>sameExcept k pg pg'\<close>: the two pages differ at most in the detached tree \<open>k\<close>.
  \<open>extends pg pg'\<close>: the live document and every tree of \<open>pg\<close> are in \<open>pg'\<close> as they
  were; \<open>pg'\<close> may have more detached trees.\<close>

definition sameExcept :: "nat \<Rightarrow> page \<Rightarrow> page \<Rightarrow> bool" where
  "sameExcept k pg pg' =
     (document pg' = document pg \<and> length (detached pg') = length (detached pg) \<and>
      (\<forall>j. j \<noteq> k \<longrightarrow> detached pg' ! j = detached pg ! j))"

definition extends :: "page \<Rightarrow> page \<Rightarrow> bool" where
  "extends pg pg' =
     (document pg' = document pg \<and> length (detached pg) \<le> length (detached pg') \<and>
      take (length (detached pg)) (detached pg') = detached pg)"


section \<open>The statements of the specification\<close>

text \<open>
  The five strategies of \<open>findAllMessageElements\<close>, each as what it yields on its own,
  in their priority order, and the first non-empty entry of a list of results.
  \<open>resolvedRole\<close> is the role of a message as the specification describes it: the
  detected role, or for an unresolved role the parity of the position.
\<close>

fun firstNonEmpty :: "'a list list \<Rightarrow> 'a list" where
  "firstNonEmpty [] = []"
| "firstNonEmpty (xs # xss) = (if xs \<noteq> [] then xs else firstNonEmpty xss)"

definition strategies :: "node \<Rightarrow> path list list" where
  "strategies doc =
     [documentQuerySelectorAll doc selArticle,
      documentQuerySelectorAll doc selConversationTurn,
      documentQuerySelectorAll doc selAuthorRole,
      (case documentQuerySelector doc selMain of
         None \<Rightarrow> []
       | Some main \<Rightarrow> substantialDivs doc main),
      contentGrandparents doc]"

definition resolvedRole :: "node \<Rightarrow> path \<Rightarrow> nat \<Rightarrow> role" where
  "resolvedRole doc element index =
     (case getMessageRole doc element of
        Unknown \<Rightarrow> (if even index then User else Assistant)
      | User \<Rightarrow> User
      | Assistant \<Rightarrow> Assistant)"


section \<open>Sample pages\<close>

definition noOptions :: partialExtractionOptions where
  "noOptions =
     \<lparr>includeRawHtml_opt = None, extractTimestamps_opt = None, parseLaTeX_opt = None,
      parseCodeBlocks_opt = None, parseTables_opt = None, includeThinkingBlocks_opt = None,
      maxMessages_opt = None\<rparr>"

definition helloDocument :: node where
  "helloDocument =
     Element False ''html'' []
       [Element False ''body'' [] [Element False ''main'' [] [TextNode ''hello'']]]"

definition bareDocument :: node where
  "bareDocument = Element False ''html'' [] [Element False ''body'' [] [TextNode ''hello'']]"

definition turnDocument :: node where
  "turnDocument =
     Element False ''html'' []
       [Element False ''body'' []
          [Element False ''div'' [(''data-testid'', ''conversation-turn-1'')]
             [Element False ''div'' [(''class'', ''markdown'')] [TextNode ''hi'']]]]"

definition twoArticles :: node where
  "twoArticles =
     Element False ''html'' []
       [Element False ''body'' []
          [Element False ''article'' [] [TextNode ''q''],
           Element False ''article'' [] [TextNode ''r'']]]"

definition brPage :: page where
  "brPage =
     \<lparr>document =
        Element False ''html'' []
          [Element False ''body'' []
             [Element False ''article'' []
                [Element False ''p'' []
                   [TextNode ''a'', Element False ''br'' [] [], TextNode ''b'']]]],
      detached = []\<rparr>"

definition brClone :: node where
  "brClone = Element False ''p'' [] [TextNode ''a'', Element False ''br'' [] [], TextNode ''b'']"

definition brCloneRewritten :: node where
  "brCloneRewritten = Element False ''p'' [] [TextNode ''a'', TextNode [nl], TextNode ''b'']"









section \<open>Properties of the notation renderer adapter\<close>



section \<open>The pipeline leaves the live document alone\<close>

lemma sameExcept_refl: "sameExcept k pg pg"
  by (simp add: sameExcept_def)

lemma sameExcept_trans: "sameExcept k a b \<Longrightarrow> sameExcept k b c \<Longrightarrow> sameExcept k a c"
  by (simp add: sameExcept_def)

lemma sameExcept_setTree: "sameExcept k pg (setTree pg (Detached k) n)"
  by (simp add: sameExcept_def)

lemma sameExcept_replaceWith: "fst h = Detached k \<Longrightarrow> sameExcept k pg (replaceWith pg h new)"
  by (auto simp add: replaceWith_def sameExcept_def)

lemma sameExcept_append: "fst h = Detached k \<Longrightarrow> sameExcept k pg (append pg h t)"
  by (auto simp add: append_def sameExcept_def)

lemma sameExcept_forEach:
  assumes "\<And>pg p el. sameExcept k pg (callback pg (Detached k, p) el)"
  shows "sameExcept k pg (forEach callback pg (Detached k) ps)"
proof (induction ps arbitrary: pg rule: rev_induct)
  case Nil
  then show ?case by (simp add: forEach_def sameExcept_refl)
next
  case (snoc p ps)
  have step: "sameExcept k q (case elementAt (treeOf q (Detached k)) p of
                       None \<Rightarrow> q | Some el \<Rightarrow> callback q (Detached k, p) el)" for q
    by (cases "elementAt (treeOf q (Detached k)) p") (simp_all add: sameExcept_refl assms)
  have eq: "forEach callback pg (Detached k) (ps @ [p]) =
      (case elementAt (treeOf (forEach callback pg (Detached k) ps) (Detached k)) p of
         None \<Rightarrow> forEach callback pg (Detached k) ps
       | Some el \<Rightarrow> callback (forEach callback pg (Detached k) ps) (Detached k, p) el)"
    unfolding forEach_def by (simp del: treeOf.simps)
  show ?case
    unfolding eq by (rule sameExcept_trans[OF snoc step])
qed

lemma sameExcept_unstrike: "sameExcept k pg (unstrike pg (Detached k, p) el)"
  by (simp add: unstrike_def sameExcept_replaceWith)

lemma sameExcept_katexToText: "sameExcept k pg (katexToText pg (Detached k, p) el)"
  by (simp add: katexToText_def Let_def sameExcept_replaceWith sameExcept_refl)

lemma sameExcept_mjxToText: "sameExcept k pg (mjxToText pg (Detached k, p) el)"
  by (simp add: mjxToText_def Let_def sameExcept_replaceWith sameExcept_refl)

lemma sameExcept_mathSpanToText: "sameExcept k pg (mathSpanToText pg (Detached k, p) el)"
  by (simp add: mathSpanToText_def Let_def sameExcept_replaceWith sameExcept_refl)

lemma sameExcept_brToNewline: "sameExcept k pg (brToNewline pg (Detached k, p) el)"
  by (simp add: brToNewline_def sameExcept_replaceWith)

lemma sameExcept_newlineAfterBlock: "sameExcept k pg (newlineAfterBlock pg (Detached k, p) el)"
  by (simp add: newlineAfterBlock_def sameExcept_append sameExcept_refl)

lemma sameExcept_rewrite:
  assumes "\<And>pg p el. sameExcept k pg (callback pg (Detached k, p) el)"
  shows "sameExcept k pg (rewrite sel callback (Detached k) pg)"
  unfolding rewrite_def by (rule sameExcept_forEach) (rule assms)

lemma getElementTextWithStructure_frame:
  "document (fst (getElementTextWithStructure pg element)) = document pg \<and>
   length (detached (fst (getElementTextWithStructure pg element))) = Suc (length (detached pg)) \<and>
   take (length (detached pg)) (detached (fst (getElementTextWithStructure pg element))) = detached pg"
proof -
  define k where "k = length (detached pg)"
  define pg0 where "pg0 = pg\<lparr>detached := detached pg @ [elAt (treeOf pg (fst element)) (snd element)]\<rparr>"
  define pg7 where "pg7 =
     rewrite selBlocks newlineAfterBlock (Detached k)
      (rewrite selBr brToNewline (Detached k)
        (rewrite selMathSpan mathSpanToText (Detached k)
          (rewrite selMjx mjxToText (Detached k)
            (rewrite selKatex katexToText (Detached k)
              (rewrite selLineThrough unstrike (Detached k)
                (rewrite selStrike unstrike (Detached k) pg0))))))"
  have fst_eq: "fst (getElementTextWithStructure pg element) = pg7"
    by (simp add: getElementTextWithStructure_def cloneNode_def cloneText_def
          structuralRewrites_def pg7_def pg0_def k_def)
  have "sameExcept k pg0 pg7"
    unfolding pg7_def
    by (intro sameExcept_trans[OF _ sameExcept_rewrite] sameExcept_rewrite
          sameExcept_unstrike sameExcept_katexToText sameExcept_mjxToText
          sameExcept_mathSpanToText sameExcept_brToNewline sameExcept_newlineAfterBlock)
  then have d: "document pg7 = document pg0" and l: "length (detached pg7) = length (detached pg0)"
    and o: "\<And>j. j \<noteq> k \<Longrightarrow> detached pg7 ! j = detached pg0 ! j"
    by (simp_all add: sameExcept_def)
  have "take k (detached pg7) = detached pg"
  proof (rule nth_equalityI)
    show "length (take k (detached pg7)) = length (detached pg)"
      using l by (simp add: pg0_def k_def)
  next
    fix i assume "i < length (take k (detached pg7))"
    then have "i < k" by simp
    then show "take k (detached pg7) ! i = detached pg ! i"
      using o[of i] by (simp add: pg0_def k_def nth_append)
  qed
  then show ?thesis
    using d l by (simp add: fst_eq pg0_def k_def)
qed

lemma extends_refl: "extends pg pg"
  by (simp add: extends_def)

lemma extends_trans:
  assumes ab: "extends a b" and bc: "extends b c"
  shows "extends a c"
proof -
  have le: "length (detached a) \<le> length (detached b)"
    using ab by (simp add: extends_def)
  have "take (length (detached a)) (detached c) =
        take (length (detached a)) (take (length (detached b)) (detached c))"
    using le by (simp add: min_def)
  also have "\<dots> = take (length (detached a)) (detached b)"
    using bc by (simp add: extends_def)
  also have "\<dots> = detached a"
    using ab by (simp add: extends_def)
  finally have t: "take (length (detached a)) (detached c) = detached a" .
  have "document c = document a"
    using ab bc by (simp add: extends_def)
  moreover have "length (detached a) \<le> length (detached c)"
    using ab bc by (simp add: extends_def)
  ultimately show ?thesis
    using t by (simp add: extends_def)
qed

lemma extends_getElementTextWithStructure:
  "getElementTextWithStructure pg element = (pg', t) \<Longrightarrow> extends pg pg'"
  using getElementTextWithStructure_frame[of pg element] by (simp add: extends_def)

lemma extends_listItems:
  "listItems isOrdered index items pg lines = (pg', ls) \<Longrightarrow> extends pg pg'"
proof (induction items arbitrary: pg index lines)
  case Nil
  then show ?case by (simp add: extends_refl)
next
  case (Cons item items)
  obtain pg1 t where g: "getElementTextWithStructure pg (Live, item) = (pg1, t)"
    by (cases "getElementTextWithStructure pg (Live, item)")
  have e1: "extends pg pg1"
    using g by (rule extends_getElementTextWithStructure)
  have "\<exists>i l. listItems isOrdered i items pg1 l = (pg', ls)"
    using Cons.prems by (simp add: g Let_def) blast
  then have "extends pg1 pg'"
    using Cons.IH by blast
  with e1 show ?case by (rule extends_trans)
qed

lemma extends_parseListToText:
  "parseListToText pg listElement isOrdered = (pg', t) \<Longrightarrow> extends pg pg'"
proof -
  assume a: "parseListToText pg listElement isOrdered = (pg', t)"
  obtain pg1 ls where l: "listItems isOrdered 0
      (querySelectorAll (document pg) listElement selScopeLi) pg [] = (pg1, ls)"
    by (cases "listItems isOrdered 0 (querySelectorAll (document pg) listElement selScopeLi) pg []")
  have "pg' = pg1"
    using a by (simp add: parseListToText_def Let_def l)
  then show ?thesis
    using extends_listItems[OF l] by simp
qed

lemma extends_pushTextBlock: "pushTextBlock pg t options = (pg', r) \<Longrightarrow> pg' = pg"
  by (auto simp add: pushTextBlock_def split: option.splits)

lemma extends_parseChild: "parseChild options child pg = (pg', r) \<Longrightarrow> extends pg pg'"
proof -
  assume a: "parseChild options child pg = (pg', r)"
  obtain pgl lt where l: "parseListToText pg child (tagName (elAt (document pg) child) = ''ol'') = (pgl, lt)"
    by (cases "parseListToText pg child (tagName (elAt (document pg) child) = ''ol'')")
  obtain pgg gt where g: "getElementTextWithStructure pg (Live, child) = (pgg, gt)"
    by (cases "getElementTextWithStructure pg (Live, child)")
  have el: "extends pg pgl" using l by (rule extends_parseListToText)
  have eg: "extends pg pgg" using g by (rule extends_getElementTextWithStructure)
  have "pg' = pg \<or> pg' = pgl \<or> pg' = pgg"
    using a unfolding parseChild_def Let_def l g
    by (simp split: if_splits outcome.splits bool.splits add: pushTextBlock_def split: option.splits)
  then show ?thesis
    using el eg extends_refl by blast
qed

lemma extends_parseChildren:
  "parseChildren options ce kids pg blocks = (pg', r) \<Longrightarrow> extends pg pg'"
proof (induction kids arbitrary: pg blocks)
  case Nil
  then show ?case by (simp add: extends_refl)
next
  case (Cons i kids)
  obtain pg1 r1 where c: "parseChild options (ce @ [i]) pg = (pg1, r1)"
    by (cases "parseChild options (ce @ [i]) pg")
  have e: "extends pg pg1"
    using c by (rule extends_parseChild)
  show ?case
  proof (cases r1)
    case (Returned new)
    then have "parseChildren options ce kids pg1 (blocks @ new) = (pg', r)"
      using Cons.prems c by simp
    then have "extends pg1 pg'" by (rule Cons.IH)
    with e show ?thesis by (rule extends_trans)
  next
    case (Threw x)
    then have "pg' = pg1" using Cons.prems c by simp
    then show ?thesis using e by simp
  next
    case Diverged
    then have "pg' = pg1" using Cons.prems c by simp
    then show ?thesis using e by simp
  qed
qed

lemma extends_parseContentBlocks:
  "parseContentBlocks pg ce options = (pg', r) \<Longrightarrow> extends pg pg'"
proof -
  assume a: "parseContentBlocks pg ce options = (pg', r)"
  obtain pg1 r1 where c: "parseChildren options ce (children (elAt (document pg) ce)) pg [] = (pg1, r1)"
    by (cases "parseChildren options ce (children (elAt (document pg) ce)) pg []")
  have e: "extends pg pg1" using c by (rule extends_parseChildren)
  have "pg' = pg \<or> pg' = pg1"
    using a unfolding parseContentBlocks_def Let_def c
    by (simp split: if_splits outcome.splits add: pushTextBlock_def split: option.splits)
  then show ?thesis using e extends_refl by blast
qed

lemma extends_parseMessageElement:
  "parseMessageElement pg element index options = (pg', r) \<Longrightarrow> extends pg pg'"
proof -
  assume a: "parseMessageElement pg element index options = (pg', r)"
  show ?thesis
  proof (cases "getMessageContent (document pg) element")
    case None
    then have "pg' = pg"
      using a unfolding parseMessageElement_def Let_def by (simp split: if_splits)
    then show ?thesis by (simp add: extends_refl)
  next
    case (Some ce)
    obtain pg1 r1 where c: "parseContentBlocks pg ce options = (pg1, r1)"
      by (cases "parseContentBlocks pg ce options")
    have e: "extends pg pg1" using c by (rule extends_parseContentBlocks)
    have "pg' = pg1"
      using a unfolding parseMessageElement_def Let_def Some
      by (simp add: c split: if_splits outcome.splits)
    then show ?thesis using e by simp
  qed
qed

lemma extends_parseElements:
  "parseElements opts index els pg msgs warns = (pg', r) \<Longrightarrow> extends pg pg'"
proof (induction els arbitrary: pg index msgs warns)
  case Nil
  then show ?case by (simp add: extends_refl)
next
  case (Cons el els)
  obtain pg1 r1 where c: "parseMessageElement pg el index opts = (pg1, r1)"
    by (cases "parseMessageElement pg el index opts")
  have e: "extends pg pg1"
    using c by (rule extends_parseMessageElement)
  have "pg' = pg1 \<or> (\<exists>m w. parseElements opts (Suc index) els pg1 m w = (pg', r))"
    using Cons.prems c by (simp split: outcome.splits option.splits) blast+
  then show ?case
    using Cons.IH e extends_trans by blast
qed

lemma extends_extractMessages:
  "extractMessages pg options = (pg', r) \<Longrightarrow> extends pg pg'"
proof -
  assume a: "extractMessages pg options = (pg', r)"
  show ?thesis
  proof (cases "length (findAllMessageElements (document pg)) = 0")
    case True
    then have "pg' = pg"
      using a unfolding extractMessages_def extractFallback_def Let_def
      by (simp split: option.splits if_splits)
    then show ?thesis by (simp add: extends_refl)
  next
    case False
    then obtain r1 where
      "parseElements (mergeOptions DEFAULT_EXTRACTION_OPTIONS options) 0
         (elementsToProcess (mergeOptions DEFAULT_EXTRACTION_OPTIONS options)
            (findAllMessageElements (document pg))) pg []
         (limitWarning (mergeOptions DEFAULT_EXTRACTION_OPTIONS options)
            (length (findAllMessageElements (document pg)))) = (pg', r1)"
      using a unfolding extractMessages_def Let_def by (simp split: prod.splits)
    then show ?thesis by (rule extends_parseElements)
  qed
qed

text \<open>
  C7. Extraction never changes the live document. \<open>getElementTextWithStructure\<close> makes
  its rewrites (strike-through elements, rendered math, line breaks, newlines after
  blocks) in the clone: after the call the live document is what it was, and so is every
  tree that existed before; the same holds after \<open>parseContentBlocks\<close>,
  \<open>parseMessageElement\<close> and \<open>extractMessages\<close>, whatever their outcome.
\<close>

theorem extraction_leaves_live_document:
  "document (fst (getElementTextWithStructure pg element)) = document pg \<and>
   take (length (detached pg)) (detached (fst (getElementTextWithStructure pg element))) =
     detached pg \<and>
   document (fst (parseContentBlocks pg contentElement options)) = document pg \<and>
   document (fst (parseMessageElement pg messageElement index options)) = document pg \<and>
   document (fst (extractMessages pg partialOptions)) = document pg"
proof -
  have 1: "extends pg (fst (parseContentBlocks pg contentElement options))"
    by (rule extends_parseContentBlocks[OF surjective_pairing])
  have 2: "extends pg (fst (parseMessageElement pg messageElement index options))"
    by (rule extends_parseMessageElement[OF surjective_pairing])
  have 3: "extends pg (fst (extractMessages pg partialOptions))"
    by (rule extends_extractMessages[OF surjective_pairing])
  show ?thesis
    using getElementTextWithStructure_frame[of pg element] 1 2 3
    by (simp add: extends_def)
qed

text \<open>An instance: the line break of the paragraph becomes a newline in the clone, and the
  paragraph of the page keeps its \<open>br\<close> element.\<close>

theorem extraction_leaves_live_document_witness:
  "snd (getElementTextWithStructure brPage (Live, [0, 0, 0])) = ''a'' @ [nl] @ ''b'' \<and>
   detached (fst (getElementTextWithStructure brPage (Live, [0, 0, 0]))) = [brCloneRewritten] \<and>
   document (fst (getElementTextWithStructure brPage (Live, [0, 0, 0]))) = document brPage \<and>
   nodeAt (document brPage) [0, 0, 0] = Some brClone"
proof -
  have c: "cloneNode brPage (Live, [0, 0, 0]) =
             (brPage\<lparr>detached := [brClone]\<rparr>, (Detached 0, []))"
    by code_simp
  have r: "structuralRewrites (Detached 0) (brPage\<lparr>detached := [brClone]\<rparr>) =
             brPage\<lparr>detached := [brCloneRewritten]\<rparr>"
    by code_simp
  have t: "textContent brCloneRewritten = ''a'' @ [nl] @ ''b''"
    by code_simp
  have n: "nodeAt (document brPage) [0, 0, 0] = Some brClone"
    by code_simp
  have g: "getElementTextWithStructure brPage (Live, [0, 0, 0]) =
             (brPage\<lparr>detached := [brCloneRewritten]\<rparr>, ''a'' @ [nl] @ ''b'')"
    using t by (simp add: getElementTextWithStructure_def c r cloneText_def)
  have d: "document (fst (getElementTextWithStructure brPage (Live, [0, 0, 0]))) = document brPage"
    using extraction_leaves_live_document[of brPage "(Live, [0, 0, 0])"] by simp
  show ?thesis
    using g d n by simp
qed


section \<open>Properties of the selector resolution layer\<close>

lemma firstNonEmpty_first:
  "k < length xss \<Longrightarrow> xss ! k \<noteq> [] \<Longrightarrow> (\<forall>j<k. xss ! j = []) \<Longrightarrow> firstNonEmpty xss = xss ! k"
proof (induction xss arbitrary: k)
  case Nil
  then show ?case by simp
next
  case (Cons xs xss)
  show ?case
  proof (cases k)
    case 0
    then show ?thesis using Cons.prems by simp
  next
    case (Suc n)
    have "xs = []" using Cons.prems(3) Suc by fastforce
    moreover have "firstNonEmpty xss = xss ! n"
      using Cons.IH[of n] Cons.prems Suc by fastforce
    ultimately show ?thesis using Suc by simp
  qed
qed

lemma firstNonEmpty_empty: "firstNonEmpty xss = [] \<longleftrightarrow> (\<forall>xs \<in> set xss. xs = [])"
  by (induction xss) auto

text \<open>
  C5. \<open>findAllMessageElements\<close> returns the result of the first of its five strategies,
  in their order, that yields at least one element: whenever strategy \<open>k\<close> yields
  elements and the strategies before it yield none, the result is the result of strategy
  \<open>k\<close>, whatever the later strategies would yield; and the result is empty exactly when
  all five yield nothing.
\<close>

theorem findAllMessageElements_first_strategy_wins:
  "findAllMessageElements doc = firstNonEmpty (strategies doc) \<and>
   (\<forall>k<5. strategies doc ! k \<noteq> [] \<and> (\<forall>j<k. strategies doc ! j = []) \<longrightarrow>
      findAllMessageElements doc = strategies doc ! k) \<and>
   (findAllMessageElements doc = [] \<longleftrightarrow> (\<forall>k<5. strategies doc ! k = []))"
proof -
  have eq: "findAllMessageElements doc = firstNonEmpty (strategies doc)"
    by (simp add: findAllMessageElements_def strategies_def Let_def split: option.splits)
  have len: "length (strategies doc) = 5"
    by (simp add: strategies_def)
  have first: "\<forall>k<5. strategies doc ! k \<noteq> [] \<and> (\<forall>j<k. strategies doc ! j = []) \<longrightarrow>
      findAllMessageElements doc = strategies doc ! k"
    using firstNonEmpty_first[of _ "strategies doc"] by (simp add: eq len)
  have "firstNonEmpty (strategies doc) = [] \<longleftrightarrow> (\<forall>k<5. strategies doc ! k = [])"
    unfolding firstNonEmpty_empty using len by (metis in_set_conv_nth)
  then show ?thesis using eq first by simp
qed

text \<open>An instance: the second strategy wins; the fifth would have found the body.\<close>

theorem findAllMessageElements_first_strategy_wins_witness:
  "strategies turnDocument ! 0 = [] \<and> strategies turnDocument ! 1 = [[0, 0]] \<and>
   strategies turnDocument ! 4 = [[0]] \<and> findAllMessageElements turnDocument = [[0, 0]]"
proof -
  have e: "strategies turnDocument = [[], [[0, 0]], [], [], [[0]]]"
    by code_simp
  have "findAllMessageElements turnDocument = firstNonEmpty (strategies turnDocument)"
    using findAllMessageElements_first_strategy_wins[of turnDocument] by blast
  then show ?thesis
    by (simp add: e)
qed


section \<open>Properties of the extraction orchestrator\<close>

lemma extractMessages_no_elements:
  "findAllMessageElements (document pg) = [] \<Longrightarrow>
   extractMessages pg options = extractFallback pg"
  by (simp add: extractMessages_def Let_def)

lemma extractFallback_cases:
  "extractFallback pg =
     (pg, Returned
       (case documentQuerySelector (document pg) selMain of
          None \<Rightarrow> noMessagesFound []
        | Some main \<Rightarrow>
            if trim (textContent (elAt (document pg) main)) = []
            then noMessagesFound [''Using fallback extraction - structure may not be ideal'']
            else \<lparr>success = True, data = Some [fallbackMessage (document pg) main],
                  errorText = None,
                  warnings = [''Using fallback extraction - structure may not be ideal'']\<rparr>))"
  by (simp add: extractFallback_def Let_def split: option.splits)

text \<open>
  C1, as the code has it. When \<open>findAllMessageElements\<close> finds nothing, \<open>extractMessages\<close>
  returns (it does not throw): without a \<open>main\<close> element, or with a \<open>main\<close> element whose
  text is blank, the result is the error \<open>No messages found in conversation\<close> with no
  data; with a \<open>main\<close> element that has text, the result is a success with one fallback
  message for the text of \<open>main\<close>, and a warning.
\<close>

theorem no_elements_fallback:
  assumes "findAllMessageElements (document pg) = []"
  shows "extractMessages pg options =
           (pg, Returned
             (case documentQuerySelector (document pg) selMain of
                None \<Rightarrow> noMessagesFound []
              | Some main \<Rightarrow>
                  if trim (textContent (elAt (document pg) main)) = []
                  then noMessagesFound [''Using fallback extraction - structure may not be ideal'']
                  else \<lparr>success = True, data = Some [fallbackMessage (document pg) main],
                        errorText = None,
                        warnings = [''Using fallback extraction - structure may not be ideal'']\<rparr>))"
  using assms
  by (simp only: extractMessages_no_elements extractFallback_cases)

text \<open>An instance: a page without message elements and without \<open>main\<close>.\<close>

theorem no_elements_fallback_witness:
  "findAllMessageElements (document \<lparr>document = bareDocument, detached = []\<rparr>) = [] \<and>
   extractMessages \<lparr>document = bareDocument, detached = []\<rparr> noOptions =
     (\<lparr>document = bareDocument, detached = []\<rparr>,
      Returned \<lparr>success = False, data = None,
        errorText = Some ''No messages found in conversation. Please make sure the page is fully loaded.'',
        warnings = []\<rparr>)"
proof -
  have e: "findAllMessageElements (document \<lparr>document = bareDocument, detached = []\<rparr>) = []"
    by code_simp
  have m: "documentQuerySelector bareDocument selMain = None"
    by code_simp
  show ?thesis
    using no_elements_fallback[OF e, of noOptions] e by (simp add: m noMessagesFound_def)
qed

text \<open>
  C1, as the claim states it, fails on a page whose only content is the text of \<open>main\<close>:
  no strategy finds a message element, and the call succeeds with the fallback message.
\<close>

theorem no_elements_counterexample:
  "findAllMessageElements helloDocument = [] \<and>
   extractMessages \<lparr>document = helloDocument, detached = []\<rparr> noOptions =
     (\<lparr>document = helloDocument, detached = []\<rparr>,
      Returned \<lparr>success = True,
        data = Some [\<lparr>msgId = ''fallback-0'', msgIndex = 0, msgRole = Assistant,
            msgContent = [TextBlock ''hello'' False []],
            rawHtml = ''hello'', timestamp = None, isSelected = True\<rparr>],
        errorText = None,
        warnings = [''Using fallback extraction - structure may not be ideal'']\<rparr>)"
  by code_simp

lemma parseMessageElement_role:
  assumes "parseMessageElement pg element index options = (pg', Returned (Some m))"
  shows "msgIndex m = index \<and> msgRole m = resolvedRole (document pg) element index"
proof -
  obtain pg1 r1 where c: "(case getMessageContent (document pg) element of
                 Some ce \<Rightarrow> parseContentBlocks pg ce options
               | None \<Rightarrow> (pg, Returned [])) = (pg1, r1)"
    by (cases "(case getMessageContent (document pg) element of
                 Some ce \<Rightarrow> parseContentBlocks pg ce options
               | None \<Rightarrow> (pg, Returned []))")
  show ?thesis
    using assms unfolding parseMessageElement_def Let_def c
    by (cases r1; cases "getMessageRole (document pg) element")
       (auto simp add: resolvedRole_def split: if_splits)
qed

lemma resolvedRole_known: "resolvedRole doc element index \<noteq> Unknown"
  by (simp add: resolvedRole_def split: role.splits)

lemma parseElements_roles:
  assumes "parseElements opts idx els pg msgs warns = (pg', Returned (ms, wns))"
  shows "\<forall>m \<in> set ms. m \<in> set msgs \<or>
           (idx \<le> msgIndex m \<and> msgIndex m < idx + length els \<and>
            msgRole m = resolvedRole (document pg) (els ! (msgIndex m - idx)) (msgIndex m))"
  using assms
proof (induction els arbitrary: pg idx msgs warns)
  case Nil
  then show ?case by simp
next
  case (Cons el els)
  obtain pg1 r1 where c: "parseMessageElement pg el idx opts = (pg1, r1)"
    by (cases "parseMessageElement pg el idx opts")
  have d: "document pg1 = document pg"
    using extends_parseMessageElement[OF c] by (simp add: extends_def)
  have shift: "idx' = Suc idx \<Longrightarrow> idx' \<le> j \<Longrightarrow> (el # els) ! (j - idx) = els ! (j - idx')" for j idx'
    by (simp add: Suc_diff_le)
  show ?case
  proof (cases r1)
    case (Returned mo)
    show ?thesis
    proof (cases mo)
      case None
      then have "parseElements opts (Suc idx) els pg1 msgs warns = (pg', Returned (ms, wns))"
        using Cons.prems c Returned by simp
      from Cons.IH[OF this] show ?thesis
        using d shift by (auto simp add: Suc_diff_le)
    next
      case (Some m1)
      then have rec: "parseElements opts (Suc idx) els pg1 (msgs @ [m1]) warns = (pg', Returned (ms, wns))"
        using Cons.prems c Returned by simp
      have m1: "msgIndex m1 = idx \<and> msgRole m1 = resolvedRole (document pg) el idx"
        using parseMessageElement_role[of pg el idx opts pg1 m1] c Returned Some by simp
      from Cons.IH[OF rec] show ?thesis
        using d m1 by (auto simp add: Suc_diff_le)
    qed
  next
    case (Threw e)
    then have "\<exists>w. parseElements opts (Suc idx) els pg1 msgs w = (pg', Returned (ms, wns))"
      using Cons.prems c by auto
    then obtain w where "parseElements opts (Suc idx) els pg1 msgs w = (pg', Returned (ms, wns))" ..
    from Cons.IH[OF this] show ?thesis
      using d by (auto simp add: Suc_diff_le)
  next
    case Diverged
    then show ?thesis using Cons.prems c by simp
  qed
qed

text \<open>
  C8. A message that \<open>parseMessageElement\<close> returns has the position it was parsed at
  and the role \<open>resolvedRole\<close>: the detected role, and for an unresolved role \<open>user\<close> at
  an even position and \<open>assistant\<close> at an odd one. Every message in the result of
  \<open>extractMessages\<close> has the role \<open>user\<close> or \<open>assistant\<close>, never \<open>unknown\<close>, and when
  message elements were found it is the resolved role of the element at its position.
\<close>

theorem unknown_role_by_parity:
  "(parseMessageElement pg element index options = (pg1, Returned (Some m)) \<longrightarrow>
      msgIndex m = index \<and> msgRole m \<noteq> Unknown \<and>
      msgRole m = resolvedRole (document pg) element index) \<and>
   (extractMessages pg partialOptions = (pg2, Returned r) \<and> data r = Some ms \<and> m' \<in> set ms \<longrightarrow>
      msgRole m' \<noteq> Unknown \<and>
      (findAllMessageElements (document pg) \<noteq> [] \<longrightarrow>
         msgIndex m' < length (findAllMessageElements (document pg)) \<and>
         msgRole m' = resolvedRole (document pg)
                        (findAllMessageElements (document pg) ! msgIndex m') (msgIndex m')))"
proof -
  have one: "parseMessageElement pg element index options = (pg1, Returned (Some m)) \<longrightarrow>
      msgIndex m = index \<and> msgRole m \<noteq> Unknown \<and>
      msgRole m = resolvedRole (document pg) element index"
    using parseMessageElement_role[of pg element index options pg1 m] resolvedRole_known
    by auto
  have all: "msgRole m' \<noteq> Unknown \<and>
      (findAllMessageElements (document pg) \<noteq> [] \<longrightarrow>
         msgIndex m' < length (findAllMessageElements (document pg)) \<and>
         msgRole m' = resolvedRole (document pg)
                        (findAllMessageElements (document pg) ! msgIndex m') (msgIndex m'))"
    if a: "extractMessages pg partialOptions = (pg2, Returned r)" and b: "data r = Some ms"
      and c: "m' \<in> set ms"
  proof (cases "findAllMessageElements (document pg) = []")
    case True
    have r_eq: "r = (case documentQuerySelector (document pg) selMain of
                None \<Rightarrow> noMessagesFound []
              | Some main \<Rightarrow>
                  if trim (textContent (elAt (document pg) main)) = []
                  then noMessagesFound [''Using fallback extraction - structure may not be ideal'']
                  else \<lparr>success = True, data = Some [fallbackMessage (document pg) main],
                        errorText = None,
                        warnings = [''Using fallback extraction - structure may not be ideal'']\<rparr>)"
      using a
      unfolding extractMessages_no_elements[OF True, of partialOptions] extractFallback_cases
      by (auto simp only: prod.inject outcome.inject)
    have "msgRole m' = Assistant"
    proof (cases "documentQuerySelector (document pg) selMain")
      case None
      then show ?thesis using r_eq b by (simp add: noMessagesFound_def)
    next
      case (Some main)
      show ?thesis
      proof (cases "trim (textContent (elAt (document pg) main)) = []")
        case True
        then show ?thesis using r_eq b Some by (simp add: noMessagesFound_def)
      next
        case False
        then have "ms = [fallbackMessage (document pg) main]"
          using r_eq b Some by simp
        then show ?thesis using c by (simp add: fallbackMessage_def)
      qed
    qed
    then show ?thesis using True by simp
  next
    case False
    define opts where "opts = mergeOptions DEFAULT_EXTRACTION_OPTIONS partialOptions"
    define els where "els = findAllMessageElements (document pg)"
    obtain r1 where p: "parseElements opts 0 (elementsToProcess opts els) pg []
                          (limitWarning opts (length els)) = (pg2, r1)"
      and f: "finish r1 = Returned r"
      using a False unfolding extractMessages_def Let_def opts_def els_def
      by (auto split: prod.splits)
    obtain wns where r1: "r1 = Returned (ms, wns)"
      using f b by (cases r1 rule: finish.cases) (auto split: if_splits)
    have "idx_ok": "msgIndex m' < length (elementsToProcess opts els) \<and>
        msgRole m' = resolvedRole (document pg) (elementsToProcess opts els ! msgIndex m') (msgIndex m')"
      using parseElements_roles[OF p[unfolded r1]] c by auto
    have "msgIndex m' < length els \<and> elementsToProcess opts els ! msgIndex m' = els ! msgIndex m'"
      using idx_ok by (auto simp add: elementsToProcess_def split: if_splits)
    then show ?thesis
      using idx_ok resolvedRole_known by (simp add: els_def)
  qed
  show ?thesis using one all by blast
qed

text \<open>An instance: two articles without any indication of a role.\<close>

theorem unknown_role_by_parity_witness:
  "getMessageRole twoArticles [0, 0] = Unknown \<and> getMessageRole twoArticles [0, 1] = Unknown \<and>
   extractMessages \<lparr>document = twoArticles, detached = []\<rparr> noOptions =
     (\<lparr>document = twoArticles, detached = []\<rparr>,
      Returned \<lparr>success = True,
        data = Some [\<lparr>msgId = ''msg-0'', msgIndex = 0, msgRole = User,
                      msgContent = [TextBlock ''q'' False []],
                      rawHtml = ''q'', timestamp = None, isSelected = True\<rparr>,
                     \<lparr>msgId = ''msg-1'', msgIndex = 1, msgRole = Assistant,
                      msgContent = [TextBlock ''r'' False []],
                      rawHtml = ''r'', timestamp = None, isSelected = True\<rparr>],
        errorText = None, warnings = []\<rparr>) \<and>
   resolvedRole twoArticles [0, 0] 0 = User \<and> resolvedRole twoArticles [0, 1] 1 = Assistant"
proof -
  define m0 where "m0 = \<lparr>msgId = ''msg-0'', msgIndex = 0, msgRole = User,
            msgContent = [TextBlock ''q'' False []],
            rawHtml = ''q'', timestamp = None, isSelected = True\<rparr>"
  define m1 where "m1 = \<lparr>msgId = ''msg-1'', msgIndex = 1, msgRole = Assistant,
            msgContent = [TextBlock ''r'' False []],
            rawHtml = ''r'', timestamp = None, isSelected = True\<rparr>"
  define r where "r = \<lparr>success = True, data = Some [m0, m1], errorText = None, warnings = []\<rparr>"
  have e: "extractMessages \<lparr>document = twoArticles, detached = []\<rparr> noOptions =
     (\<lparr>document = twoArticles, detached = []\<rparr>, Returned r)"
    unfolding r_def m0_def m1_def by code_simp
  have f: "findAllMessageElements twoArticles = [[0, 0], [0, 1]]"
    by code_simp
  have u: "getMessageRole twoArticles [0, 0] = Unknown \<and> getMessageRole twoArticles [0, 1] = Unknown"
    by code_simp
  have d: "data r = Some [m0, m1]" by (simp add: r_def)
  have r0: "msgRole m0 = resolvedRole twoArticles [0, 0] 0"
    using unknown_role_by_parity[of "\<lparr>document = twoArticles, detached = []\<rparr>" _ _ _ _ _
        noOptions "\<lparr>document = twoArticles, detached = []\<rparr>" r "[m0, m1]" m0] e d
    by (simp add: f m0_def)
  have r1: "msgRole m1 = resolvedRole twoArticles [0, 1] 1"
    using unknown_role_by_parity[of "\<lparr>document = twoArticles, detached = []\<rparr>" _ _ _ _ _
        noOptions "\<lparr>document = twoArticles, detached = []\<rparr>" r "[m0, m1]" m1] e d
    by (simp add: f m1_def)
  have "resolvedRole twoArticles [0, 0] 0 = User \<and> resolvedRole twoArticles [0, 1] 1 = Assistant"
    using r0 r1 by (simp add: m0_def m1_def)
  then show ?thesis
    using u e by (simp add: r_def m0_def m1_def)
qed

section \<open>Properties of the regular expression engine\<close>

lemma star_stop:
  "s = [] \<or> hd s \<in> set cs \<Longrightarrow> star (matchAt (NoneOf cs)) n (p, s, c) = [(p, s, c)]"
  by (cases n; cases s) (auto simp add: rest_def)

lemma star_NoneOf_skip:
  assumes "\<forall>x\<in>set body. x \<notin> set cs"
    and "\<And>p' x xs c'. x \<notin> set cs \<Longrightarrow> G (p', x # xs, c') = []"
    and "length (body @ r) \<le> n"
  shows "concat (map G (star (matchAt (NoneOf cs)) n (p, body @ r, c))) =
         concat (map G (star (matchAt (NoneOf cs)) (n - length body) (rev body @ p, r, c)))"
  using assms(1,3)
proof (induction body arbitrary: n p)
  case Nil
  then show ?case by simp
next
  case (Cons x b)
  then obtain m where n: "n = Suc m" and m: "length (b @ r) \<le> m" by (cases n) auto
  have x: "x \<notin> set cs" using Cons.prems by simp
  have "star (matchAt (NoneOf cs)) n (p, (x # b) @ r, c) =
          star (matchAt (NoneOf cs)) m (x # p, b @ r, c) @ [(p, x # b @ r, c)]"
    using x by (simp add: n rest_def)
  then have "concat (map G (star (matchAt (NoneOf cs)) n (p, (x # b) @ r, c))) =
          concat (map G (star (matchAt (NoneOf cs)) m (x # p, b @ r, c)))"
    using assms(2)[OF x] by simp
  also have "\<dots> = concat (map G (star (matchAt (NoneOf cs)) (m - length b) (rev b @ x # p, r, c)))"
    using Cons.IH[OF _ m] Cons.prems by simp
  finally show ?case by (simp add: n)
qed

text \<open>A delimited span: the opening delimiter, a non-empty run of characters outside
  the class, the closing delimiter, which starts with a character of the class.\<close>

lemma matchAt_delimited:
  assumes body: "body \<noteq> []" "\<forall>x\<in>set body. x \<notin> set cs"
    and cl: "cl \<noteq> []" "hd cl \<in> set cs"
  shows "matchAt (seqs [Lit opn, Grp (Plus (NoneOf cs)), Lit cl]) (p, opn @ body @ cl @ post, c) =
         [(rev cl @ rev body @ rev opn @ p, post, c @ [body])]"
proof -
  obtain x b where xb: "body = x # b" using body(1) by (cases body) auto
  define s where "s = body @ cl @ post"
  define p1 where "p1 = rev opn @ p"
  define G where "G = (\<lambda>t. matchAt (Lit cl)
      (case t of (p', s', c') \<Rightarrow> (p', s', c' @ [take (length s - length s') s])))"
  have Gfail: "G (p', y # ys, c') = []" if "y \<notin> set cs" for p' y ys c'
  proof -
    have "take (length cl) (y # ys) \<noteq> cl"
      using cl that by (cases cl) auto
    then show ?thesis by (simp add: G_def)
  qed
  have x: "x \<notin> set cs" and b: "\<forall>x\<in>set b. x \<notin> set cs"
    using body(2) xb by simp_all
  have plus: "matchAt (Plus (NoneOf cs)) (p1, s, c) =
          star (matchAt (NoneOf cs)) (length (b @ cl @ post)) (x # p1, b @ cl @ post, c)"
    using x by (simp add: s_def xb rest_def)
  have "matchAt (Seq (Grp (Plus (NoneOf cs))) (Lit cl)) (p1, s, c) =
          concat (map G (matchAt (Plus (NoneOf cs)) (p1, s, c)))"
    by (simp add: G_def comp_def)
  also have "\<dots> = concat (map G (star (matchAt (NoneOf cs)) (length (b @ cl @ post))
                                  (x # p1, b @ (cl @ post), c)))"
    by (simp only: plus)
  also have "\<dots> = concat (map G (star (matchAt (NoneOf cs)) (length (b @ cl @ post) - length b)
                                  (rev b @ x # p1, cl @ post, c)))"
    using star_NoneOf_skip[of b cs G "cl @ post" "length (b @ cl @ post)" "x # p1" c] b Gfail
    by simp
  also have "\<dots> = G (rev b @ x # p1, cl @ post, c)"
    using cl by (subst star_stop) (cases cl, simp_all)
  also have "\<dots> = [(rev cl @ rev b @ x # p1, post, c @ [body])]"
    by (simp add: G_def s_def xb)
  finally have "matchAt (Seq (Grp (Plus (NoneOf cs))) (Lit cl)) (p1, s, c) =
      [(rev cl @ rev b @ x # p1, post, c @ [body])]" .
  then show ?thesis
    by (simp add: s_def p1_def xb)
qed

lemma matchAt_Lit_fails:
  "take (length w) s \<noteq> w \<Longrightarrow> matchAt (Seq (Lit w) r) (p, s, c) = []"
  by simp

lemma matchAt_Plus_NoneOf_fails:
  "s = [] \<or> hd s \<in> set cs \<Longrightarrow> matchAt (Plus (NoneOf cs)) (p, s, c) = []"
  by (cases s) auto

text \<open>The exec loop.\<close>

lemma execLoop_skip:
  "execLoop r i (length xs) p (xs @ ys) = execLoop r (i + length xs) 0 (rev xs @ p) ys"
proof (induction xs arbitrary: i p)
  case Nil
  then show ?case by simp
next
  case (Cons x xs)
  then show ?case by simp
qed

lemma execLoop_skip_to:
  assumes "\<And>j q. execLoop r j 0 q ys = res"
  shows "execLoop r i (length xs) p (xs @ ys) = res"
  by (simp only: execLoop_skip assms)

lemma execLoop_skip_end:
  assumes "length xs = k" and "\<And>q. firstMatch r q [] = None"
  shows "execLoop r i k p xs = Some []"
proof -
  have "execLoop r i (length xs) p (xs @ []) = execLoop r (i + length xs) 0 (rev xs @ p) []"
    by (rule execLoop_skip)
  then show ?thesis using assms by simp
qed

lemma execLoop_no_match:
  assumes "\<forall>x\<in>set xs. \<forall>p' s'. firstMatch r p' (x # s') = None"
  shows "execLoop r i 0 p (xs @ ys) = execLoop r (i + length xs) 0 (rev xs @ p) ys"
  using assms
proof (induction xs arbitrary: i p)
  case Nil
  then show ?case by simp
next
  case (Cons x xs)
  then show ?case by simp
qed

lemma execLoop_end:
  "firstMatch r p [] = None \<Longrightarrow> execLoop r i 0 p [] = Some []"
  by simp

lemma execLoop_step_none:
  "firstMatch r p (x # xs) = None \<Longrightarrow> execLoop r i 0 p (x # xs) = execLoop r (Suc i) 0 (x # p) xs"
  by simp

lemma execLoop_step_match:
  "firstMatch r p (x # xs) = Some (Suc j, caps) \<Longrightarrow>
   execLoop r i 0 p (x # xs) = map_option ((#) (i, caps, Suc j)) (execLoop r (Suc i) j (x # p) xs)"
  by simp

lemma firstMatch_delimited:
  assumes "body \<noteq> []" "\<forall>x\<in>set body. x \<notin> set cs" "cl \<noteq> []" "hd cl \<in> set cs"
  shows "firstMatch (seqs [Lit opn, Grp (Plus (NoneOf cs)), Lit cl]) p (opn @ body @ cl @ post) =
         Some (length opn + length body + length cl, [body])"
  unfolding firstMatch_def matchAt_delimited[OF assms]
  by (simp add: rest_def)

lemma inline_fails:
  "s = [] \<or> hd s \<noteq> CHR ''$'' \<Longrightarrow> firstMatch inlineRegex p s = None"
  by (cases s) (auto simp add: inlineRegex_def firstMatch_def)

lemma inline_fails_dollar:
  "s = [] \<or> hd s = CHR ''$'' \<Longrightarrow> firstMatch inlineRegex p (CHR ''$'' # s) = None"
  by (cases s) (auto simp add: inlineRegex_def firstMatch_def)

lemma inline_matches:
  assumes "body \<noteq> []" "CHR ''$'' \<notin> set body"
  shows "firstMatch inlineRegex p (CHR ''$'' # body @ CHR ''$'' # post) = Some (Suc (Suc (length body)), [body])"
  using firstMatch_delimited[of body "''$''" "''$''" "''$''" p post] assms
  by (auto simp add: inlineRegex_def)

lemma block_fails:
  "take 2 s \<noteq> ''$$'' \<Longrightarrow> firstMatch blockRegex p s = None"
  by (simp add: blockRegex_def firstMatch_def numeral_2_eq_2)

lemma block_matches:
  assumes "body \<noteq> []" "CHR ''$'' \<notin> set body"
  shows "firstMatch blockRegex p (''$$'' @ body @ ''$$'' @ post) =
           Some (Suc (Suc (Suc (Suc (length body)))), [body])"
  using firstMatch_delimited[of body "''$''" "''$$''" "''$$''" p post] assms
  by (auto simp add: blockRegex_def)

lemma inline_no_dollar:
  "CHR ''$'' \<notin> set xs \<Longrightarrow>
   execLoop inlineRegex i 0 p (xs @ ys) = execLoop inlineRegex (i + length xs) 0 (rev xs @ p) ys"
proof (rule execLoop_no_match, intro ballI allI)
  fix x p' s' assume "CHR ''$'' \<notin> set xs" "x \<in> set xs"
  then have "x \<noteq> CHR ''$''" by auto
  then show "firstMatch inlineRegex p' (x # s') = None"
    by (intro inline_fails) simp
qed

lemma block_no_dollar:
  "CHR ''$'' \<notin> set xs \<Longrightarrow>
   execLoop blockRegex i 0 p (xs @ ys) = execLoop blockRegex (i + length xs) 0 (rev xs @ p) ys"
proof (rule execLoop_no_match, intro ballI allI)
  fix x p' s' assume "CHR ''$'' \<notin> set xs" "x \<in> set xs"
  then have "x \<noteq> CHR ''$''" by auto
  then show "firstMatch blockRegex p' (x # s') = None"
    by (intro block_fails) (cases s', auto)
qed

lemma take2_dollar: "s = [] \<or> hd s \<noteq> CHR ''$'' \<Longrightarrow> take 2 (x # s) \<noteq> ''$$''"
  by (cases s) auto

lemma inlineMath_fails_other:
  "s = [] \<or> hd s \<noteq> CHR ''$'' \<Longrightarrow> firstMatch inlineMathRegex p s = None"
  by (cases s; cases p) (auto simp add: inlineMathRegex_def firstMatch_def)

lemma inlineMath_fails_double:
  "firstMatch inlineMathRegex p (CHR ''$'' # CHR ''$'' # s) = None"
  by (cases p) (auto simp add: inlineMathRegex_def firstMatch_def)

lemma inlineMath_fails_behind:
  "firstMatch inlineMathRegex (CHR ''$'' # p) s = None"
  by (auto simp add: inlineMathRegex_def firstMatch_def)

lemma inlineMath_no_dollar:
  "CHR ''$'' \<notin> set xs \<Longrightarrow>
   execLoop inlineMathRegex i 0 p (xs @ ys) =
   execLoop inlineMathRegex (i + length xs) 0 (rev xs @ p) ys"
proof (rule execLoop_no_match, intro ballI allI)
  fix x p' s' assume "CHR ''$'' \<notin> set xs" "x \<in> set xs"
  then have "x \<noteq> CHR ''$''" by auto
  then show "firstMatch inlineMathRegex p' (x # s') = None"
    by (intro inlineMath_fails_other) simp
qed

lemma blockMath_matches:
  assumes "body \<noteq> []" "CHR ''$'' \<notin> set body"
  shows "firstMatch blockMathRegex p (''$$'' @ body @ ''$$'' @ post) =
           Some (Suc (Suc (Suc (Suc (length body)))), [body])"
  using firstMatch_delimited[of body "''$''" "''$$''" "''$$''" p post] assms
  by (auto simp add: blockMathRegex_def)

lemma blockMath_fails:
  "take 2 s \<noteq> ''$$'' \<Longrightarrow> firstMatch blockMathRegex p s = None"
  by (simp add: blockMathRegex_def firstMatch_def numeral_2_eq_2)


section \<open>Properties of the text block construction\<close>

text \<open>
  C9. For a text whose only dollar signs are those of one span \<open>$x^2$\<close>,
  \<open>createTextBlock\<close> with LaTeX parsing enabled returns a text block with
  \<open>hasLatex = true\<close> and exactly one expression: raw text \<open>x^2\<close>, not a block, at the
  offset of the opening dollar sign.
\<close>

theorem createTextBlock_single_inline:
  assumes pre: "CHR ''$'' \<notin> set pre" and post: "CHR ''$'' \<notin> set post"
    and opt: "parseLaTeX options"
  shows "createTextBlock (pre @ ''$x^2$'' @ post) options =
           Some (TextBlock (pre @ ''$x^2$'' @ post) True
                   [\<lparr>raw = ''x^2'', isBlock = False, position = length pre\<rparr>])"
proof -
  have end_inl: "execLoop inlineRegex j 0 q post = Some []" for j q
    using inline_no_dollar[OF post, of j q "[]"] by (simp add: inline_fails)
  have end_blk: "execLoop blockRegex j 0 q post = Some []" for j q
    using block_no_dollar[OF post, of j q "[]"] by (simp add: block_fails)
  have m: "firstMatch inlineRegex q (CHR ''$'' # ''x^2'' @ CHR ''$'' # post) = Some (5, [''x^2''])" for q
    using inline_matches[of "''x^2''" q post] by simp
  have "execAll inlineRegex (pre @ ''$x^2$'' @ post) =
          execLoop inlineRegex (length pre) 0 (rev pre) (''$x^2$'' @ post)"
    using inline_no_dollar[OF pre, of 0 "[]" "''$x^2$'' @ post"] by (simp add: execAll_def)
  also have "\<dots> = map_option ((#) (length pre, [''x^2''], 5))
                     (execLoop inlineRegex (Suc (length pre)) 4 (CHR ''$'' # rev pre) (''x^2$'' @ post))"
    using execLoop_step_match[of inlineRegex "rev pre" "CHR ''$''" "''x^2$'' @ post" 4 "[''x^2'']" "length pre"] m
    by simp
  also have "execLoop inlineRegex (Suc (length pre)) 4 (CHR ''$'' # rev pre) (''x^2$'' @ post) =
             execLoop inlineRegex (Suc (length pre) + 4) 0 (rev ''x^2$'' @ CHR ''$'' # rev pre) post"
    by (simp add: eval_nat_numeral)
  finally have inl: "execAll inlineRegex (pre @ ''$x^2$'' @ post) = Some [(length pre, [''x^2''], 5)]"
    by (simp add: end_inl)
  have b1: "firstMatch blockRegex q (CHR ''$'' # ''x^2'' @ CHR ''$'' # post) = None" for q
    by (rule block_fails) simp
  have b2: "firstMatch blockRegex q (CHR ''$'' # post) = None" for q
    using post by (intro block_fails take2_dollar) (cases post, auto)
  have e1: "execLoop blockRegex j 0 q (CHR ''$'' # post) = Some []" for j q
    by (simp add: b2 end_blk)
  have e2: "execLoop blockRegex j 0 q (''x^2'' @ CHR ''$'' # post) = Some []" for j q
    using block_no_dollar[of "''x^2''" j q "CHR ''$'' # post"]
    by (simp only: e1) simp
  have e3: "execLoop blockRegex j 0 q (CHR ''$'' # ''x^2'' @ CHR ''$'' # post) = Some []" for j q
    by (simp only: execLoop_step_none[OF b1] e2)
  have "execAll blockRegex (pre @ ''$x^2$'' @ post) =
          execLoop blockRegex (length pre) 0 (rev pre) (CHR ''$'' # ''x^2'' @ CHR ''$'' # post)"
    using block_no_dollar[OF pre, of 0 "[]" "''$x^2$'' @ post"] by (simp add: execAll_def)
  then have blk: "execAll blockRegex (pre @ ''$x^2$'' @ post) = Some []"
    by (simp only: e3)
  show ?thesis
    using opt unfolding createTextBlock_def inl blk
    by (simp add: toExpression_def group1_def)
qed

theorem createTextBlock_single_inline_witness:
  "CHR ''$'' \<notin> set ''Area '' \<and> CHR ''$'' \<notin> set '' ok'' \<and>
   parseLaTeX DEFAULT_EXTRACTION_OPTIONS \<and>
   createTextBlock (''Area '' @ ''$x^2$'' @ '' ok'') DEFAULT_EXTRACTION_OPTIONS =
     Some (TextBlock (''Area '' @ ''$x^2$'' @ '' ok'') True
             [\<lparr>raw = ''x^2'', isBlock = False, position = 5\<rparr>])"
proof -
  have a: "CHR ''$'' \<notin> set ''Area ''" and b: "CHR ''$'' \<notin> set '' ok''"
    and c: "parseLaTeX DEFAULT_EXTRACTION_OPTIONS"
    by (simp_all add: DEFAULT_EXTRACTION_OPTIONS_def)
  show ?thesis
    using createTextBlock_single_inline[OF a b c] a b c by simp
qed

text \<open>
  C10. For the text \<open>$$f$$\<close> of one block formula, with \<open>f\<close> not empty and free of
  dollar signs, \<open>createTextBlock\<close> with LaTeX parsing enabled records the formula
  twice: as an inline expression found at offset 1, inside the delimiters, and as a block
  expression at offset 0. \<open>extractLatexExpressions\<close> returns the block expression only.
\<close>

theorem createTextBlock_block_recorded_twice:
  assumes f: "f \<noteq> []" "CHR ''$'' \<notin> set f" and opt: "parseLaTeX options"
  shows "createTextBlock (''$$'' @ f @ ''$$'') options =
           Some (TextBlock (''$$'' @ f @ ''$$'') True
                   [\<lparr>raw = f, isBlock = False, position = 1\<rparr>,
                    \<lparr>raw = f, isBlock = True, position = 0\<rparr>]) \<and>
         extractLatexExpressions (''$$'' @ f @ ''$$'') =
           Some [\<lparr>fRaw = f, fIsBlock = True, startIndex = 0, endIndex = length f + 4\<rparr>]"
proof -
  \<comment> \<open>the inline pattern of createTextBlock\<close>
  have i0: "firstMatch inlineRegex [] (CHR ''$'' # CHR ''$'' # f @ ''$$'') = None"
    by (rule inline_fails_dollar) simp
  have i1: "firstMatch inlineRegex [CHR ''$''] (CHR ''$'' # f @ CHR ''$'' # ''$'') =
              Some (Suc (Suc (length f)), [f])"
    by (rule inline_matches[OF f])
  have i2: "firstMatch inlineRegex q ''$'' = None" for q
    by (rule inline_fails_dollar) simp
  have i3: "firstMatch inlineRegex q [] = None" for q
    by (rule inline_fails) simp
  have iend: "execLoop inlineRegex j 0 q ''$'' = Some []" for j q
    by (simp add: i2 i3)
  have iskip: "execLoop inlineRegex 2 (Suc (length f)) [CHR ''$'', CHR ''$''] (f @ CHR ''$'' # ''$'') = Some []"
  proof -
    have "execLoop inlineRegex 2 (length (f @ ''$'')) [CHR ''$'', CHR ''$''] ((f @ ''$'') @ ''$'') = Some []"
      by (rule execLoop_skip_to) (rule iend)
    then show ?thesis by (simp del: execLoop.simps)
  qed
  have "execAll inlineRegex (''$$'' @ f @ ''$$'') =
          execLoop inlineRegex 1 0 [CHR ''$''] (CHR ''$'' # f @ CHR ''$'' # ''$'')"
    using i0 by (simp add: execAll_def)
  also have "\<dots> = map_option ((#) (1, [f], Suc (Suc (length f))))
                     (execLoop inlineRegex 2 (Suc (length f)) [CHR ''$'', CHR ''$''] (f @ CHR ''$'' # ''$''))"
    using execLoop_step_match[OF i1, of 1] by (simp add: numeral_2_eq_2 del: execLoop.simps)
  finally have inl: "execAll inlineRegex (''$$'' @ f @ ''$$'') = Some [(1, [f], Suc (Suc (length f)))]"
    by (simp add: iskip del: execLoop.simps)
  \<comment> \<open>the block pattern\<close>
  have b0: "firstMatch blockRegex [] (CHR ''$'' # CHR ''$'' # f @ ''$$'') =
              Some (Suc (Suc (Suc (Suc (length f)))), [f])"
    using block_matches[OF f, of "[]" "[]"] by simp
  have b3: "firstMatch blockRegex q [] = None" for q
    by (rule block_fails) simp
  have bskip: "execLoop blockRegex (Suc 0) (Suc (Suc (Suc (length f)))) [CHR ''$''] (CHR ''$'' # f @ ''$$'') = Some []"
    by (rule execLoop_skip_end) (simp_all add: b3)
  have blk: "execAll blockRegex (''$$'' @ f @ ''$$'') = Some [(0, [f], Suc (Suc (Suc (Suc (length f)))))]"
    using execLoop_step_match[OF b0, of 0] by (simp add: execAll_def bskip del: execLoop.simps)
  have ctb: "createTextBlock (''$$'' @ f @ ''$$'') options =
           Some (TextBlock (''$$'' @ f @ ''$$'') True
                   [\<lparr>raw = f, isBlock = False, position = 1\<rparr>,
                    \<lparr>raw = f, isBlock = True, position = 0\<rparr>])"
    using opt unfolding createTextBlock_def inl blk
    by (simp add: toExpression_def group1_def)
  \<comment> \<open>extractLatexExpressions\<close>
  have m0: "firstMatch blockMathRegex [] (CHR ''$'' # CHR ''$'' # f @ ''$$'') =
              Some (Suc (Suc (Suc (Suc (length f)))), [f])"
    using blockMath_matches[OF f, of "[]" "[]"] by simp
  have m3: "firstMatch blockMathRegex q [] = None" for q
    by (rule blockMath_fails) simp
  have mskip: "execLoop blockMathRegex (Suc 0) (Suc (Suc (Suc (length f)))) [CHR ''$''] (CHR ''$'' # f @ ''$$'') = Some []"
    by (rule execLoop_skip_end) (simp_all add: m3)
  have bm: "execAll blockMathRegex (''$$'' @ f @ ''$$'') = Some [(0, [f], Suc (Suc (Suc (Suc (length f)))))]"
    using execLoop_step_match[OF m0, of 0] by (simp add: execAll_def mskip del: execLoop.simps)
  have t2: "execLoop inlineMathRegex j 0 q ''$$'' = Some []" for j q
    by (simp add: inlineMath_fails_double inlineMath_fails_behind inlineMath_fails_other)
  have t1: "execLoop inlineMathRegex j 0 q (f @ ''$$'') = Some []" for j q
    using inlineMath_no_dollar[OF f(2), of j q "''$$''"] by (simp only: t2)
  have im: "execAll inlineMathRegex (''$$'' @ f @ ''$$'') = Some []"
    by (simp add: execAll_def inlineMath_fails_double inlineMath_fails_behind t1)
  have ele: "extractLatexExpressions (''$$'' @ f @ ''$$'') =
           Some [\<lparr>fRaw = f, fIsBlock = True, startIndex = 0, endIndex = length f + 4\<rparr>]"
    unfolding extractLatexExpressions_def bm im
    by (simp add: toFound_def)
  show ?thesis using ctb ele by simp
qed

theorem createTextBlock_block_recorded_twice_witness:
  "''E=mc^2'' \<noteq> [] \<and> CHR ''$'' \<notin> set ''E=mc^2'' \<and> parseLaTeX DEFAULT_EXTRACTION_OPTIONS \<and>
   createTextBlock (''$$'' @ ''E=mc^2'' @ ''$$'') DEFAULT_EXTRACTION_OPTIONS =
     Some (TextBlock (''$$'' @ ''E=mc^2'' @ ''$$'') True
             [\<lparr>raw = ''E=mc^2'', isBlock = False, position = 1\<rparr>,
              \<lparr>raw = ''E=mc^2'', isBlock = True, position = 0\<rparr>]) \<and>
   extractLatexExpressions (''$$'' @ ''E=mc^2'' @ ''$$'') =
     Some [\<lparr>fRaw = ''E=mc^2'', fIsBlock = True, startIndex = 0, endIndex = 10\<rparr>]"
proof -
  have a: "''E=mc^2'' \<noteq> []" and b: "CHR ''$'' \<notin> set ''E=mc^2''"
    and c: "parseLaTeX DEFAULT_EXTRACTION_OPTIONS"
    by (simp_all add: DEFAULT_EXTRACTION_OPTIONS_def)
  show ?thesis
    using createTextBlock_block_recorded_twice[OF a b c] a b c by simp
qed


section \<open>Properties of the notation repair engine\<close>















lemma count_list_replicate_same: "count_list (replicate n c) c = n"
  by (induction n) simp_all

text \<open>
  C4, as the code has it. \<open>cleanLatexContent\<close> ends with the balancing of the text that
  its substitutions produced: to that text it appends as many closing braces as there
  are more opening than closing braces in it, which balances the result; with no more
  opening than closing braces the text stays as it is; the balancing removes nothing.
\<close>

theorem balanceBraces_appends_deficit:
  "cleanLatexContent latex = balanceBraces (applyRules cleanLatexContent_rules latex) \<and>
   balanceBraces cleaned =
     cleaned @ replicate (count_list cleaned CHR ''{'' - count_list cleaned CHR ''}'') CHR ''}'' \<and>
   (count_list cleaned CHR ''{'' > count_list cleaned CHR ''}'' \<longrightarrow>
      count_list (balanceBraces cleaned) CHR ''{'' = count_list (balanceBraces cleaned) CHR ''}'') \<and>
   (count_list cleaned CHR ''{'' \<le> count_list cleaned CHR ''}'' \<longrightarrow> balanceBraces cleaned = cleaned) \<and>
   take (length cleaned) (balanceBraces cleaned) = cleaned"
proof -
  have eq: "balanceBraces cleaned =
     cleaned @ replicate (count_list cleaned CHR ''{'' - count_list cleaned CHR ''}'') CHR ''}''"
    by (simp add: balanceBraces_def Let_def)
  have n: "count_list (replicate n CHR ''}'') CHR ''{'' = 0" for n
    by (induction n) simp_all
  have bal: "count_list (balanceBraces cleaned) CHR ''{'' = count_list (balanceBraces cleaned) CHR ''}''"
    if "count_list cleaned CHR ''{'' > count_list cleaned CHR ''}''"
    using that unfolding eq by (simp add: count_list_replicate_same n)
  show ?thesis
    using eq bal by (simp add: cleanLatexContent_def)
qed

theorem balanceBraces_appends_deficit_witness:
  "count_list (cmd ''frac{1}{2'') CHR ''{'' > count_list (cmd ''frac{1}{2'') CHR ''}'' \<and>
   applyRules cleanLatexContent_rules (cmd ''frac{1}{2'') = cmd ''frac{1}{2'' \<and>
   cleanLatexContent (cmd ''frac{1}{2'') = cmd ''frac{1}{2}'' \<and>
   count_list (cleanLatexContent (cmd ''frac{1}{2'')) CHR ''{'' =
     count_list (cleanLatexContent (cmd ''frac{1}{2'')) CHR ''}''"
proof -
  have r: "applyRules cleanLatexContent_rules (cmd ''frac{1}{2'') = cmd ''frac{1}{2''"
    by code_simp
  have c: "count_list (cmd ''frac{1}{2'') CHR ''{'' > count_list (cmd ''frac{1}{2'') CHR ''}''"
    by simp
  have e: "cleanLatexContent (cmd ''frac{1}{2'') = balanceBraces (cmd ''frac{1}{2'')"
    using balanceBraces_appends_deficit[of "cmd ''frac{1}{2''" "cmd ''frac{1}{2''"] r by simp
  have b: "count_list (balanceBraces (cmd ''frac{1}{2'')) CHR ''{'' =
           count_list (balanceBraces (cmd ''frac{1}{2'')) CHR ''}''"
    using balanceBraces_appends_deficit[of "cmd ''frac{1}{2''" "cmd ''frac{1}{2''"] c by blast
  have v: "balanceBraces (cmd ''frac{1}{2'') = cmd ''frac{1}{2}''"
    using balanceBraces_appends_deficit[of "cmd ''frac{1}{2''" "cmd ''frac{1}{2''"] by simp
  show ?thesis
    using r c e b v by simp
qed

text \<open>
  C4, as the claim states it for every formula, fails: the braces are counted after the
  substitutions, which remove braces (\<open>\underline{x}\<close> becomes \<open>x\<close>) and add braces
  (\<open>\langle\<close> becomes \<open>{\<close>).
\<close>

theorem braces_counterexample:
  "count_list (cmd ''underline{x}{'') CHR ''{'' = 2 \<and>
   count_list (cmd ''underline{x}{'') CHR ''}'' = 1 \<and>
   cleanLatexContent (cmd ''underline{x}{'') = ''x{}'' \<and>
   cleanLatexContent (cmd ''underline{x}{'') \<noteq> cmd ''underline{x}{'' @ ''}'' \<and>
   count_list (cmd ''langle'') CHR ''{'' = 0 \<and> count_list (cmd ''langle'') CHR ''}'' = 0 \<and>
   cleanLatexContent (cmd ''langle'') = ''{}'' \<and>
   cleanLatexContent (cmd ''langle'') \<noteq> cmd ''langle''"
proof -
  have 1: "cleanLatexContent (cmd ''underline{x}{'') = ''x{}''" by code_simp
  have 2: "cleanLatexContent (cmd ''langle'') = ''{}''" by code_simp
  show ?thesis by (simp add: 1 2)
qed

section \<open>Properties of the message limit\<close>


































end
